theory Spec2Isabelle
  imports Complex_Main
begin

section \<open>Struggle detection pipeline: data model\<close>

text \<open>
  The three services of the pipeline (\<open>StruggleSignalService\<close>, \<open>StruggleScoringService\<close>,
  \<open>TutorAlertService\<close>) are embedded as functions over an explicit database value.
  Conventions of the embedding:
  \<^item> JavaScript numbers are \<open>real\<close>: IEEE rounding and \<open>NaN\<close> are not represented;
  \<open>Math.round\<close> is \<open>\<lfloor>x + 1/2\<rfloor>\<close>.
  \<^item> An ObjectId is a \<open>nat\<close>; a date is an \<open>int\<close> (milliseconds since the epoch).
  \<^item> Every \<open>Date.now()\<close> of one service call reads the same instant, the parameter
  \<open>now\<close>; the stamps that mongoose writes under \<open>timestamps: true\<close> during the call are
  that instant too.
  \<^item> A field that may be absent, \<open>null\<close> or \<open>undefined\<close> is an \<open>option\<close>.
  \<^item> A schema \<open>enum\<close> is a datatype; strings are ASCII.
  \<^item> A mongoose call that can reject is a function into \<open>error + _\<close>.
  \<^item> A document has the fields that its schema declares and the \<open>createdAt\<close> stamp
  that the services query. A \<open>TutorAlert\<close>, the one document that a service updates in
  place, has its \<open>updatedAt\<close> stamp as well: mongoose sets it on \<open>create\<close> and rewrites
  it on every \<open>findOneAndUpdate\<close>.
  \<^item> A service call is one function, so it runs alone on the store. Where calls overlap,
  the alert dispatcher is also given as steps between its \<open>await\<close> points.
\<close>

datatype signalType =
  REPEATED_TOPIC | FAILED_ATTEMPT | LONG_RESPONSE_TIME
  | NEGATIVE_SENTIMENT | ENGAGEMENT_DROP | HINT_DEPENDENCY

datatype trend = UP | DOWN | STABLE

datatype supportLevel = LOW | MEDIUM | HIGH

datatype urgency = SOFT | URGENT

datatype error = ValidationError | MongoServerError nat

text \<open>The \<open>meta.raw\<close> object of a signal: one shape per detection rule.\<close>

datatype rawMeta =
  RawStatus string
  | RawSameTopicCount nat
  | RawLatency real real real
  | RawSentimentScore real
  | RawHintCount nat
  | RawMethod string

record aiInteraction =
  ai_id :: nat
  ai_userId :: nat
  ai_role :: "string option"
  ai_track :: "string option"
  ai_topicOneLine :: "string option"
  ai_inputText :: "string option"
  ai_status :: string
  ai_processingTime :: "real option"
  ai_createdAt :: int

record signalPayload =
  sp_userId :: nat
  sp_interactionId :: nat
  sp_track :: string
  sp_topic :: string
  sp_signalType :: signalType
  sp_value :: real
  sp_windowHours :: int
  sp_raw :: rawMeta

record struggleSignal =
  sig_userId :: nat
  sig_interactionId :: nat
  sig_track :: string
  sig_topic :: string
  sig_signalType :: signalType
  sig_value :: real
  sig_windowHours :: int
  sig_raw :: rawMeta
  sig_createdAt :: int

record contributingSignal =
  cs_signalType :: signalType
  cs_weight :: real
  cs_value :: real

record struggleProfile =
  prof_userId :: nat
  prof_track :: string
  prof_cohortId :: string
  struggleScore :: real
  prof_trend :: trend
  prof_supportLevel :: supportLevel
  lastEvaluatedAt :: "int option"
  contributingSignals :: "contributingSignal list"
  lastReasonSummary :: string

record tutorCareNetwork =
  net_studentId :: nat
  tutorIds :: "nat list"
  lastInteractionAt :: "int option"

record tutorAlert =
  alert_id :: nat
  alert_tutorId :: nat
  alert_studentId :: nat
  alert_urgency :: urgency
  alert_topic :: string
  alert_struggleScore :: real
  alert_reasonSummary :: string
  isRead :: bool
  alert_createdAt :: int
  alert_updatedAt :: int

text \<open>
  The collections. \<open>StruggleProfile\<close> and \<open>TutorCareNetwork\<close> have a unique index on
  their user reference, so they are maps from it; the others are lists in insertion order.
\<close>

record db =
  AIInteractions :: "aiInteraction list"
  StruggleSignals :: "struggleSignal list"
  StruggleProfiles :: "nat \<rightharpoonup> struggleProfile"
  TutorCareNetworks :: "nat \<rightharpoonup> tutorCareNetwork"
  TutorAlerts :: "tutorAlert list"
  nextId :: nat

record extractResult =
  created :: nat
  skipped :: nat
  signals :: "struggleSignal list"

section \<open>JavaScript helpers\<close>

text \<open>\<open>s || d\<close> on a string that may be absent: absent and empty are both falsy.\<close>

definition orDefault :: "string option \<Rightarrow> string \<Rightarrow> string" where
  "orDefault s d = (case s of None \<Rightarrow> d | Some v \<Rightarrow> if v = [] then d else v)"

text \<open>\<open>v || 0\<close> on a number that may be absent.\<close>

definition orZero :: "real option \<Rightarrow> real" where
  "orZero v = (case v of None \<Rightarrow> 0 | Some x \<Rightarrow> x)"

definition lowerChar :: "char \<Rightarrow> char" where
  "lowerChar c =
     (case map_of (zip ''ABCDEFGHIJKLMNOPQRSTUVWXYZ'' ''abcdefghijklmnopqrstuvwxyz'') c of
        None \<Rightarrow> c | Some l \<Rightarrow> l)"

definition toLowerCase :: "string \<Rightarrow> string" where
  "toLowerCase t = map lowerChar t"

text \<open>\<open>t.includes(m)\<close>: \<open>m\<close> occurs in \<open>t\<close> as a contiguous substring.\<close>

fun str_includes :: "string \<Rightarrow> string \<Rightarrow> bool" where
  "str_includes [] m = (m = [])"
| "str_includes (c # cs) m = (take (length m) (c # cs) = m \<or> str_includes cs m)"

definition Math_round :: "real \<Rightarrow> real" where
  "Math_round x = of_int \<lfloor>x + 1 / 2\<rfloor>"

fun join :: "string \<Rightarrow> string list \<Rightarrow> string" where
  "join sep [] = []"
| "join sep [x] = x"
| "join sep (x # y # ys) = x @ sep @ join sep (y # ys)"

definition hoursMs :: "int \<Rightarrow> int" where
  "hoursMs h = h * 60 * 60 * 1000"

section \<open>StruggleSignalService\<close>

definition clamp01 :: "real \<Rightarrow> real" where
  "clamp01 n = max 0 (min 1 n)"

definition normalizeLinear :: "real \<Rightarrow> real \<Rightarrow> real \<Rightarrow> real" where
  "normalizeLinear x mn mx =
     (if mx \<le> mn then 0
      else if x \<le> mn then 0
      else if x \<ge> mx then 1
      else (x - mn) / (mx - mn))"

definition negativeLexicon :: "string list" where
  "negativeLexicon =
     [''stuck'', ''confused'', ''frustrated'', ''annoying'', ''hate'', ''cant'',
      [CHR ''c'', CHR ''a'', CHR ''n'', CHR 0x27, CHR ''t''],
      [CHR ''w'', CHR ''o'', CHR ''n'', CHR 0x27, CHR ''t''],
      ''doesnt make sense'',
      ''doesn'' @ [CHR 0x27] @ ''t make sense'',
      ''im lost'', ''i'' @ [CHR 0x27] @ ''m lost'',
      ''give up'', ''hard'', ''im done'', ''i'' @ [CHR 0x27] @ ''m done'',
      ''this sucks'']"

definition positiveLexicon :: "string list" where
  "positiveLexicon =
     [''got it'', ''thanks'', ''thank you'', ''understand'', ''makes sense'', ''nice'',
      ''awesome'', ''great'', ''cool'', ''worked'', ''solved'', ''lets go'',
      ''let'' @ [CHR 0x27] @ ''s go'']"

definition sentimentLexiconScore :: "string \<Rightarrow> real" where
  "sentimentLexiconScore text =
     (let t = toLowerCase text;
          score = int (length (filter (str_includes t) positiveLexicon))
                  - int (length (filter (str_includes t) negativeLexicon))
      in if score \<le> - 3 then - 1
         else if score \<ge> 3 then 1
         else of_int score / 3)"

definition hintMarkers :: "string list" where
  "hintMarkers =
     [''hint'', ''clue'', ''nudge'', ''dont give answer'', ''no answer'', ''just help'',
      ''guide me'']"

definition isHint :: "string \<Rightarrow> bool" where
  "isHint text = list_ex (str_includes (toLowerCase text)) hintMarkers"

definition computeEngagementDrop :: "int \<Rightarrow> aiInteraction list \<Rightarrow> real option" where
  "computeEngagementDrop now recent =
     (if length recent < 10 then None
      else
        let h6 = 6 * 60 * 60 * 1000;
            last6h = length (filter (\<lambda>x. now - ai_createdAt x \<le> h6) recent);
            prev6h = length (filter (\<lambda>x. now - ai_createdAt x > h6
                                         \<and> now - ai_createdAt x \<le> 2 * h6) recent)
        in if prev6h < 3 then None
           else Some (normalizeLinear (1 - real last6h / real prev6h) 0.1 0.8))"

definition signal :: "aiInteraction \<Rightarrow> string \<Rightarrow> string \<Rightarrow> signalType \<Rightarrow> real \<Rightarrow> int
    \<Rightarrow> rawMeta \<Rightarrow> signalPayload" where
  "signal interaction track topic signalType v windowHours raw =
     \<lparr> sp_userId = ai_userId interaction,
       sp_interactionId = ai_id interaction,
       sp_track = orDefault (Some track) ''general'',
       sp_topic = orDefault (Some topic) ''unknown'',
       sp_signalType = signalType,
       sp_value = clamp01 v,
       sp_windowHours = windowHours,
       sp_raw = raw \<rparr>"

text \<open>
  \<open>AIInteraction.find({userId, createdAt: {$gte: since}}).sort({createdAt: -1}).limit(100)\<close>.
  The order among equal \<open>createdAt\<close> is the store's choice; here it is the reverse of the
  insertion order.
\<close>

definition recentInteractions :: "int \<Rightarrow> int \<Rightarrow> nat \<Rightarrow> db \<Rightarrow> aiInteraction list" where
  "recentInteractions now windowHours userId d =
     take 100 (rev (sort_key ai_createdAt
       (filter (\<lambda>x. ai_userId x = userId \<and> ai_createdAt x \<ge> now - hoursMs windowHours)
          (AIInteractions d))))"

text \<open>The role gate on line 138: \<open>interaction.role && interaction.role !== "STUDENT"\<close>.\<close>

definition roleGate :: "aiInteraction \<Rightarrow> bool" where
  "roleGate interaction =
     (case ai_role interaction of
        None \<Rightarrow> False
      | Some r \<Rightarrow> r \<noteq> [] \<and> r \<noteq> ''STUDENT'')"

text \<open>
  The six detection rules of \<open>extractSignalsFromInteraction\<close>, each the list of the
  payloads that it pushes: none or one.
\<close>

definition trackOf :: "aiInteraction \<Rightarrow> string" where
  "trackOf interaction = orDefault (ai_track interaction) ''general''"

definition topicOf :: "aiInteraction \<Rightarrow> string" where
  "topicOf interaction = orDefault (ai_topicOneLine interaction) ''unknown''"

definition failedAttemptRule :: "aiInteraction \<Rightarrow> int \<Rightarrow> signalPayload list" where
  "failedAttemptRule interaction windowHours =
     (if ai_status interaction = ''FAILED''
      then [signal interaction (trackOf interaction) (topicOf interaction) FAILED_ATTEMPT 1
              windowHours (RawStatus (ai_status interaction))]
      else [])"

definition repeatedTopicRule :: "aiInteraction \<Rightarrow> int \<Rightarrow> aiInteraction list
    \<Rightarrow> signalPayload list" where
  "repeatedTopicRule interaction windowHours recent =
     (let sameTopicCount = length (filter (\<lambda>x. topicOf x = topicOf interaction) recent);
          repeatedTopicValue = normalizeLinear (real sameTopicCount) 1 5
      in if sameTopicCount \<ge> 3
         then [signal interaction (trackOf interaction) (topicOf interaction) REPEATED_TOPIC
                 repeatedTopicValue windowHours (RawSameTopicCount sameTopicCount)]
         else [])"

definition longResponseTimeRule :: "aiInteraction \<Rightarrow> int \<Rightarrow> aiInteraction list
    \<Rightarrow> signalPayload list" where
  "longResponseTimeRule interaction windowHours recent =
     (case ai_processingTime interaction of
        None \<Rightarrow> []
      | Some latencyMs \<Rightarrow>
          (let latencies = sort (take 30 (List.map_filter ai_processingTime recent));
               baseline = (if latencies \<noteq> [] then latencies ! (length latencies div 2)
                           else 4000);
               ratio = (if baseline > 0 then latencyMs / baseline else 1);
               longRespValue = normalizeLinear ratio 1.1 2.5
           in if ratio \<ge> 1.5
              then [signal interaction (trackOf interaction) (topicOf interaction)
                      LONG_RESPONSE_TIME longRespValue windowHours
                      (RawLatency latencyMs baseline ratio)]
              else []))"

definition negativeSentimentRule :: "aiInteraction \<Rightarrow> int \<Rightarrow> signalPayload list" where
  "negativeSentimentRule interaction windowHours =
     (let inputText = orDefault (ai_inputText interaction) [];
          sentimentScore = sentimentLexiconScore inputText;
          negativeSentimentValue = clamp01 ((- sentimentScore + 0.1) / 1.1)
      in if negativeSentimentValue \<ge> 0.45
         then [signal interaction (trackOf interaction) (topicOf interaction)
                 NEGATIVE_SENTIMENT negativeSentimentValue windowHours
                 (RawSentimentScore sentimentScore)]
         else [])"

definition hintDependencyRule :: "aiInteraction \<Rightarrow> int \<Rightarrow> aiInteraction list
    \<Rightarrow> signalPayload list" where
  "hintDependencyRule interaction windowHours recent =
     (let inputText = orDefault (ai_inputText interaction) []
      in if isHint inputText
         then (let hintCount =
                     length (filter (\<lambda>x. isHint (orDefault (ai_inputText x) [])) recent);
                   hintDepValue = normalizeLinear (real hintCount) 1 8
               in [signal interaction (trackOf interaction) (topicOf interaction)
                     HINT_DEPENDENCY hintDepValue windowHours (RawHintCount hintCount)])
         else [])"

definition engagementDropRule :: "int \<Rightarrow> aiInteraction \<Rightarrow> int \<Rightarrow> aiInteraction list
    \<Rightarrow> signalPayload list" where
  "engagementDropRule now interaction windowHours recent =
     (case computeEngagementDrop now recent of
        None \<Rightarrow> []
      | Some engagementDrop \<Rightarrow>
          if engagementDrop \<ge> 0.6
          then [signal interaction (trackOf interaction) (topicOf interaction)
                  ENGAGEMENT_DROP engagementDrop windowHours (RawMethod ''6h-vs-prev-6h'')]
          else [])"

text \<open>The list \<open>signalPayloads\<close> of the source, in the order of its pushes.\<close>

definition signalPayloads :: "int \<Rightarrow> aiInteraction \<Rightarrow> int \<Rightarrow> aiInteraction list
    \<Rightarrow> signalPayload list" where
  "signalPayloads now interaction windowHours recent =
     failedAttemptRule interaction windowHours
     @ repeatedTopicRule interaction windowHours recent
     @ longResponseTimeRule interaction windowHours recent
     @ negativeSentimentRule interaction windowHours
     @ hintDependencyRule interaction windowHours recent
     @ engagementDropRule now interaction windowHours recent"

text \<open>
  \<open>StruggleSignal.create(payload)\<close>: the schema validates \<open>value\<close> into \<open>[0, 1]\<close>, the
  unique index on \<open>(interactionId, signalType)\<close> rejects a second document for the pair
  with error code 11000, and otherwise the document is stored with its \<open>createdAt\<close>.
\<close>

definition signalDoc :: "int \<Rightarrow> signalPayload \<Rightarrow> struggleSignal" where
  "signalDoc now p =
     \<lparr> sig_userId = sp_userId p,
       sig_interactionId = sp_interactionId p,
       sig_track = sp_track p,
       sig_topic = sp_topic p,
       sig_signalType = sp_signalType p,
       sig_value = sp_value p,
       sig_windowHours = sp_windowHours p,
       sig_raw = sp_raw p,
       sig_createdAt = now \<rparr>"

definition StruggleSignal_create :: "int \<Rightarrow> signalPayload \<Rightarrow> db \<Rightarrow> (error + struggleSignal) \<times> db" where
  "StruggleSignal_create now p d =
     (if sp_value p < 0 \<or> sp_value p > 1 then (Inl ValidationError, d)
      else if list_ex (\<lambda>s. sig_interactionId s = sp_interactionId p
                          \<and> sig_signalType s = sp_signalType p) (StruggleSignals d)
      then (Inl (MongoServerError 11000), d)
      else (Inr (signalDoc now p),
            d\<lparr>StruggleSignals := StruggleSignals d @ [signalDoc now p]\<rparr>))"

text \<open>
  The write loop of lines 277 to 289. A thrown error leaves the loop, and the documents
  written before it stay in the store.
\<close>

fun writeSignals :: "int \<Rightarrow> signalPayload list \<Rightarrow> extractResult \<Rightarrow> db
    \<Rightarrow> (error + extractResult) \<times> db" where
  "writeSignals now [] r d = (Inr r, d)"
| "writeSignals now (p # ps) r d =
     (case StruggleSignal_create now p d of
        (Inr doc, d') \<Rightarrow>
          writeSignals now ps (r\<lparr>created := created r + 1, signals := signals r @ [doc]\<rparr>) d'
      | (Inl err, d') \<Rightarrow>
          if err = MongoServerError 11000
          then writeSignals now ps (r\<lparr>skipped := skipped r + 1\<rparr>) d'
          else (Inl err, d'))"

definition emptyResult :: extractResult where
  "emptyResult = \<lparr> created = 0, skipped = 0, signals = [] \<rparr>"

text \<open>\<open>options.windowHours ?? 24\<close>.\<close>

definition windowOrDefault :: "int option \<Rightarrow> int" where
  "windowOrDefault w = (case w of None \<Rightarrow> 24 | Some h \<Rightarrow> h)"

definition extractSignalsFromInteraction :: "int \<Rightarrow> aiInteraction \<Rightarrow> int option \<Rightarrow> db
    \<Rightarrow> (error + extractResult) \<times> db" where
  "extractSignalsFromInteraction now interaction options d =
     (let windowHours = windowOrDefault options
      in if roleGate interaction then (Inr emptyResult, d)
         else
           writeSignals now
             (signalPayloads now interaction windowHours
                (recentInteractions now windowHours (ai_userId interaction) d))
             emptyResult d)"

section \<open>StruggleScoringService\<close>

definition WEIGHTS :: "(signalType \<times> real) list" where
  "WEIGHTS =
     [(REPEATED_TOPIC, 0.25), (FAILED_ATTEMPT, 0.20), (NEGATIVE_SENTIMENT, 0.15),
      (ENGAGEMENT_DROP, 0.15), (LONG_RESPONSE_TIME, 0.15), (HINT_DEPENDENCY, 0.10)]"

text \<open>\<open>StruggleSignal.find({userId, createdAt: {$gte: since}})\<close>.\<close>

definition signalsInWindow :: "int \<Rightarrow> int \<Rightarrow> nat \<Rightarrow> db \<Rightarrow> struggleSignal list" where
  "signalsInWindow now windowHours userId d =
     filter (\<lambda>s. sig_userId s = userId \<and> sig_createdAt s \<ge> now - hoursMs windowHours)
       (StruggleSignals d)"

text \<open>The loop of lines 42 to 44: the maximum value per signal type.\<close>

fun aggregate :: "struggleSignal list \<Rightarrow> (signalType \<rightharpoonup> real) \<Rightarrow> (signalType \<rightharpoonup> real)" where
  "aggregate [] aggregated = aggregated"
| "aggregate (s # ss) aggregated =
     aggregate ss
       (aggregated(sig_signalType s \<mapsto> max (orZero (aggregated (sig_signalType s))) (sig_value s)))"

text \<open>The loop of lines 49 to 55 over the entries of the weight table.\<close>

fun weigh :: "(signalType \<times> real) list \<Rightarrow> (signalType \<rightharpoonup> real) \<Rightarrow> real \<times> contributingSignal list
    \<Rightarrow> real \<times> contributingSignal list" where
  "weigh [] aggregated acc = acc"
| "weigh ((type, weight) # ws) aggregated (rawScore, contributing) =
     (let v = orZero (aggregated type)
      in weigh ws aggregated
           (rawScore + weight * v,
            if v > 0
            then contributing @ [\<lparr> cs_signalType = type, cs_weight = weight, cs_value = v \<rparr>]
            else contributing))"

definition rawScoreOf :: "(signalType \<rightharpoonup> real) \<Rightarrow> real" where
  "rawScoreOf aggregated = fst (weigh WEIGHTS aggregated (0, []))"

text \<open>Line 58: the map of \<open>0..1\<close> onto \<open>1..10\<close>.\<close>

definition scoreOfRaw :: "real \<Rightarrow> real" where
  "scoreOfRaw rawScore = min 10 (max 1 (Math_round ((1 + rawScore * 9) * 10) / 10))"

definition supportLevelOf :: "real \<Rightarrow> supportLevel" where
  "supportLevelOf score = (if score \<ge> 7 then HIGH else if score \<ge> 4 then MEDIUM else LOW)"

definition trendOf :: "struggleProfile option \<Rightarrow> real \<Rightarrow> trend" where
  "trendOf prevProfile score =
     (case prevProfile of
        None \<Rightarrow> STABLE
      | Some prev \<Rightarrow>
          if score > struggleScore prev + 0.5 then UP
          else if score < struggleScore prev - 0.5 then DOWN
          else STABLE)"

fun signalTypeName :: "signalType \<Rightarrow> string" where
  "signalTypeName REPEATED_TOPIC = ''REPEATED_TOPIC''"
| "signalTypeName FAILED_ATTEMPT = ''FAILED_ATTEMPT''"
| "signalTypeName LONG_RESPONSE_TIME = ''LONG_RESPONSE_TIME''"
| "signalTypeName NEGATIVE_SENTIMENT = ''NEGATIVE_SENTIMENT''"
| "signalTypeName ENGAGEMENT_DROP = ''ENGAGEMENT_DROP''"
| "signalTypeName HINT_DEPENDENCY = ''HINT_DEPENDENCY''"

definition reasonSummaryOf :: "contributingSignal list \<Rightarrow> string" where
  "reasonSummaryOf contributing =
     join '' & ''
       (map (\<lambda>s. toLowerCase
                    (map (\<lambda>c. if c = CHR ''_'' then CHR '' '' else c)
                       (signalTypeName (cs_signalType s))))
          (take 2 contributing))"

text \<open>
  The five fields that \<open>recomputeForUser\<close> hands to \<open>_upsertProfile\<close>, which writes them
  and \<open>lastEvaluatedAt\<close> with \<open>findOneAndUpdate(..., {upsert: true, new: true})\<close>: an
  existing profile keeps its other fields, a new one takes the schema defaults.
\<close>

record profileData =
  pd_struggleScore :: real
  pd_trend :: trend
  pd_supportLevel :: supportLevel
  pd_contributingSignals :: "contributingSignal list"
  pd_lastReasonSummary :: string

definition upsertProfile :: "int \<Rightarrow> nat \<Rightarrow> profileData \<Rightarrow> db \<Rightarrow> struggleProfile \<times> db" where
  "upsertProfile now userId pdata d =
     (let base = (case StruggleProfiles d userId of
                    Some p \<Rightarrow> p
                  | None \<Rightarrow>
                      \<lparr> prof_userId = userId, prof_track = ''general'',
                        prof_cohortId = ''default'', struggleScore = 1, prof_trend = STABLE,
                        prof_supportLevel = LOW, lastEvaluatedAt = None,
                        contributingSignals = [], lastReasonSummary = [] \<rparr>);
          p' = base\<lparr> struggleScore := pd_struggleScore pdata,
                     prof_trend := pd_trend pdata,
                     prof_supportLevel := pd_supportLevel pdata,
                     contributingSignals := pd_contributingSignals pdata,
                     lastReasonSummary := pd_lastReasonSummary pdata,
                     lastEvaluatedAt := Some now \<rparr>
      in (p', d\<lparr>StruggleProfiles := (StruggleProfiles d)(userId \<mapsto> p')\<rparr>))"

definition recomputeForUser :: "int \<Rightarrow> nat \<Rightarrow> int option \<Rightarrow> db \<Rightarrow> struggleProfile \<times> db" where
  "recomputeForUser now userId options d =
     (let sigs = signalsInWindow now (windowOrDefault options) userId d
      in if sigs = []
         then upsertProfile now userId
                \<lparr> pd_struggleScore = 1, pd_trend = STABLE, pd_supportLevel = LOW,
                  pd_contributingSignals = [], pd_lastReasonSummary = [] \<rparr> d
         else
           (let aggregated = aggregate sigs Map.empty;
                (rawScore, contributing) = weigh WEIGHTS aggregated (0, []);
                score = scoreOfRaw rawScore
            in upsertProfile now userId
                 \<lparr> pd_struggleScore = score,
                   pd_trend = trendOf (StruggleProfiles d userId) score,
                   pd_supportLevel = supportLevelOf score,
                   pd_contributingSignals = contributing,
                   pd_lastReasonSummary = reasonSummaryOf contributing \<rparr> d))"

section \<open>TutorAlertService\<close>

definition COOLDOWN_HOURS :: int where
  "COOLDOWN_HOURS = 24"

text \<open>
  The cooldown query of lines 33 to 38:
  \<open>TutorAlert.findOne({tutorId, studentId, createdAt: {$gte: since}})\<close>.
\<close>

definition recentAlert :: "int \<Rightarrow> nat \<Rightarrow> nat \<Rightarrow> db \<Rightarrow> tutorAlert option" where
  "recentAlert now tutorId studentId d =
     find (\<lambda>a. alert_tutorId a = tutorId \<and> alert_studentId a = studentId
                \<and> alert_createdAt a \<ge> now - hoursMs COOLDOWN_HOURS)
       (TutorAlerts d)"

text \<open>
  \<open>TutorAlert.create\<close> with the payload of lines 42 to 49. The schema requires
  \<open>struggleScore\<close> in \<open>[1, 10]\<close>, gives \<open>isRead\<close> its default, and stamps
  \<open>createdAt\<close> and \<open>updatedAt\<close>.
\<close>

definition TutorAlert_create :: "int \<Rightarrow> nat \<Rightarrow> nat \<Rightarrow> struggleProfile \<Rightarrow> db
    \<Rightarrow> (error + tutorAlert) \<times> db" where
  "TutorAlert_create now tutorId studentId profile d =
     (if struggleScore profile < 1 \<or> struggleScore profile > 10 then (Inl ValidationError, d)
      else
        (let alert = \<lparr> alert_id = nextId d,
                       alert_tutorId = tutorId,
                       alert_studentId = studentId,
                       alert_urgency = (if struggleScore profile \<ge> 9 then URGENT else SOFT),
                       alert_topic = orDefault (Some (lastReasonSummary profile)) ''current topic'',
                       alert_struggleScore = struggleScore profile,
                       alert_reasonSummary =
                         ''A learner you helped before may benefit from support.'',
                       isRead = False,
                       alert_createdAt = now,
                       alert_updatedAt = now \<rparr>
         in (Inr alert, d\<lparr>TutorAlerts := TutorAlerts d @ [alert], nextId := Suc (nextId d)\<rparr>)))"

text \<open>The loop of lines 31 to 52 over \<open>network.tutorIds\<close>.\<close>

fun alertTutors :: "int \<Rightarrow> nat \<Rightarrow> struggleProfile \<Rightarrow> nat list \<Rightarrow> tutorAlert list \<Rightarrow> db
    \<Rightarrow> (error + tutorAlert list) \<times> db" where
  "alertTutors now studentId profile [] alerts d = (Inr alerts, d)"
| "alertTutors now studentId profile (tutorId # rest) alerts d =
     (case recentAlert now tutorId studentId d of
        Some recent \<Rightarrow> alertTutors now studentId profile rest alerts d
      | None \<Rightarrow>
          (case TutorAlert_create now tutorId studentId profile d of
             (Inl err, d') \<Rightarrow> (Inl err, d')
           | (Inr alert, d') \<Rightarrow>
               alertTutors now studentId profile rest (alerts @ [alert]) d'))"

text \<open>The test of lines 20 to 25 under which the call returns early.\<close>

definition notEligible :: "struggleProfile \<Rightarrow> bool" where
  "notEligible profile =
     ((prof_supportLevel profile \<noteq> HIGH \<or> prof_trend profile \<noteq> UP)
      \<and> struggleScore profile < 9)"

definition createAlertsIfNeeded :: "int \<Rightarrow> nat \<Rightarrow> db \<Rightarrow> (error + tutorAlert list) \<times> db" where
  "createAlertsIfNeeded now studentId d =
     (case StruggleProfiles d studentId of
        None \<Rightarrow> (Inr [], d)
      | Some profile \<Rightarrow>
          if notEligible profile then (Inr [], d)
          else
            (case TutorCareNetworks d studentId of
               None \<Rightarrow> (Inr [], d)
             | Some network \<Rightarrow>
                 if tutorIds network = [] then (Inr [], d)
                 else alertTutors now studentId profile (tutorIds network) [] d))"

text \<open>
  The same call between its \<open>await\<close> points, for calls that overlap. A run has read the
  profile and the care network and is in front of the cooldown query for the first tutor
  left (\<open>Querying\<close>), or has found no recent alert for that tutor and is in front of
  \<open>TutorAlert.create\<close> (\<open>Creating\<close>), or has returned. \<open>stepRun\<close> is what happens on the
  store between two \<open>await\<close> points; \<open>runAlone\<close> lets one run take a number of steps with
  no other run in between, and \<open>interleave\<close> lets two runs take their steps in the order of
  a schedule (\<open>True\<close>: the first run steps).
\<close>

datatype alertRun =
  Querying int nat struggleProfile "nat list" "tutorAlert list"
  | Creating int nat struggleProfile "nat list" "tutorAlert list"
  | Returned "error + tutorAlert list"

definition startRun :: "int \<Rightarrow> nat \<Rightarrow> db \<Rightarrow> alertRun" where
  "startRun now studentId d =
     (case StruggleProfiles d studentId of
        None \<Rightarrow> Returned (Inr [])
      | Some profile \<Rightarrow>
          if notEligible profile then Returned (Inr [])
          else
            (case TutorCareNetworks d studentId of
               None \<Rightarrow> Returned (Inr [])
             | Some network \<Rightarrow>
                 if tutorIds network = [] then Returned (Inr [])
                 else Querying now studentId profile (tutorIds network) []))"

fun stepRun :: "alertRun \<Rightarrow> db \<Rightarrow> alertRun \<times> db" where
  "stepRun (Querying now studentId profile [] alerts) d = (Returned (Inr alerts), d)"
| "stepRun (Querying now studentId profile (tutorId # rest) alerts) d =
     (case recentAlert now tutorId studentId d of
        Some recent \<Rightarrow> (Querying now studentId profile rest alerts, d)
      | None \<Rightarrow> (Creating now studentId profile (tutorId # rest) alerts, d))"
| "stepRun (Creating now studentId profile [] alerts) d = (Returned (Inr alerts), d)"
| "stepRun (Creating now studentId profile (tutorId # rest) alerts) d =
     (case TutorAlert_create now tutorId studentId profile d of
        (Inl err, d') \<Rightarrow> (Returned (Inl err), d')
      | (Inr alert, d') \<Rightarrow> (Querying now studentId profile rest (alerts @ [alert]), d'))"
| "stepRun (Returned r) d = (Returned r, d)"

fun runAlone :: "nat \<Rightarrow> alertRun \<Rightarrow> db \<Rightarrow> alertRun \<times> db" where
  "runAlone 0 run d = (run, d)"
| "runAlone (Suc n) run d = (case stepRun run d of (run', d') \<Rightarrow> runAlone n run' d')"


text \<open>
  \<open>markAsRead\<close>: \<open>findOneAndUpdate({_id: alertId, tutorId}, {isRead: true}, {new: true})\<close>
  updates the first document that matches and returns it, or returns \<open>null\<close>. The
  schema has \<open>timestamps: true\<close>, so the update that mongoose sends sets \<open>updatedAt\<close>
  to the current time besides \<open>isRead\<close>.
\<close>

fun updateFirst :: "int \<Rightarrow> nat \<Rightarrow> nat \<Rightarrow> tutorAlert list
    \<Rightarrow> tutorAlert option \<times> tutorAlert list" where
  "updateFirst now alertId tutorId [] = (None, [])"
| "updateFirst now alertId tutorId (a # as) =
     (if alert_id a = alertId \<and> alert_tutorId a = tutorId
      then (Some (a\<lparr>isRead := True, alert_updatedAt := now\<rparr>),
            a\<lparr>isRead := True, alert_updatedAt := now\<rparr> # as)
      else (case updateFirst now alertId tutorId as of
              (r, as') \<Rightarrow> (r, a # as')))"

definition markAsRead :: "int \<Rightarrow> nat \<Rightarrow> nat \<Rightarrow> db \<Rightarrow> tutorAlert option \<times> db" where
  "markAsRead now alertId tutorId d =
     (case updateFirst now alertId tutorId (TutorAlerts d) of
        (r, as') \<Rightarrow> (r, d\<lparr>TutorAlerts := as'\<rparr>))"

section \<open>Vocabulary of the properties\<close>

text \<open>How many stored signals an interaction has of one type.\<close>

definition signalCount :: "nat \<Rightarrow> signalType \<Rightarrow> db \<Rightarrow> nat" where
  "signalCount interactionId k d =
     length (filter (\<lambda>s. sig_interactionId s = interactionId \<and> sig_signalType s = k)
               (StruggleSignals d))"

text \<open>Whether the store already holds the \<open>(interactionId, signalType)\<close> pair of a payload.\<close>

definition stored :: "db \<Rightarrow> signalPayload \<Rightarrow> bool" where
  "stored d p =
     list_ex (\<lambda>s. sig_interactionId s = sp_interactionId p
                  \<and> sig_signalType s = sp_signalType p) (StruggleSignals d)"

text \<open>
  The payloads that a call of \<open>extractSignalsFromInteraction\<close> hands to its write loop:
  none behind the role gate, else the fired rules.
\<close>

definition plannedPayloads :: "int \<Rightarrow> aiInteraction \<Rightarrow> int option \<Rightarrow> db \<Rightarrow> signalPayload list" where
  "plannedPayloads now interaction options d =
     (if roleGate interaction then []
      else signalPayloads now interaction (windowOrDefault options)
             (recentInteractions now (windowOrDefault options) (ai_userId interaction) d))"


text \<open>
  Whether a list of alerts holds one for the (tutor, student) pair that the cooldown query
  issued at \<open>now\<close> matches.
\<close>

definition inCooldown :: "int \<Rightarrow> nat \<Rightarrow> nat \<Rightarrow> tutorAlert list \<Rightarrow> bool" where
  "inCooldown now tutorId studentId as =
     list_ex (\<lambda>a. alert_tutorId a = tutorId \<and> alert_studentId a = studentId
                  \<and> alert_createdAt a \<ge> now - hoursMs COOLDOWN_HOURS) as"

text \<open>
  What one run of the alert loop at \<open>now\<close> for a student may append to the collection:
  alerts for that student stamped \<open>now\<close>, for pairwise different tutors of the list, none of
  whom was in cooldown, with the urgency and score of the profile.
\<close>

definition loopAlerts :: "int \<Rightarrow> nat \<Rightarrow> struggleProfile \<Rightarrow> nat list \<Rightarrow> tutorAlert list
    \<Rightarrow> tutorAlert list \<Rightarrow> bool" where
  "loopAlerts now studentId profile ts old new =
     (distinct (map alert_tutorId new)
      \<and> list_all (\<lambda>a. alert_studentId a = studentId \<and> alert_createdAt a = now
                     \<and> alert_tutorId a \<in> set ts
                     \<and> \<not> inCooldown now (alert_tutorId a) studentId old
                     \<and> alert_urgency a = (if struggleScore profile \<ge> 9 then URGENT else SOFT)
                     \<and> alert_struggleScore a = struggleScore profile
                     \<and> \<not> isRead a) new)"

text \<open>The eligibility gate in the words of the specification.\<close>

definition eligible :: "struggleProfile \<Rightarrow> bool" where
  "eligible profile =
     ((prof_supportLevel profile = HIGH \<and> prof_trend profile = UP)
      \<or> struggleScore profile \<ge> 9)"

text \<open>
  The shape of what one detection rule pushes: nothing, or one payload of the rule's type
  for the interaction, with a value in \<open>[0, 1]\<close>.
\<close>

definition ruleShape :: "aiInteraction \<Rightarrow> signalType \<Rightarrow> signalPayload list \<Rightarrow> bool" where
  "ruleShape i k ps =
     (ps = [] \<or> (\<exists>p. ps = [p] \<and> sp_signalType p = k \<and> sp_interactionId p = ai_id i
                    \<and> sp_userId p = ai_userId i \<and> 0 \<le> sp_value p \<and> sp_value p \<le> 1))"

section \<open>Example stores\<close>

text \<open>
  The scenario of the specification: one failed interaction of a learner on recursion,
  alone in its window; the same interaction without a role; and the signal that
  extraction at instant 2000 stores for either.
\<close>

definition demoInteraction :: aiInteraction where
  "demoInteraction =
     \<lparr> ai_id = 1, ai_userId = 7, ai_role = Some ''STUDENT'', ai_track = Some ''AI'',
       ai_topicOneLine = Some ''recursion'', ai_inputText = Some ''Why base case'',
       ai_status = ''FAILED'', ai_processingTime = Some 1200, ai_createdAt = 1000 \<rparr>"

definition absentRoleInteraction :: aiInteraction where
  "absentRoleInteraction = demoInteraction\<lparr>ai_role := None\<rparr>"

definition demoDb :: "aiInteraction \<Rightarrow> db" where
  "demoDb interaction =
     \<lparr> AIInteractions = [interaction], StruggleSignals = [],
       StruggleProfiles = Map.empty, TutorCareNetworks = Map.empty, TutorAlerts = [],
       nextId = 0 \<rparr>"

definition demoSignal :: struggleSignal where
  "demoSignal =
     \<lparr> sig_userId = 7, sig_interactionId = 1, sig_track = ''AI'', sig_topic = ''recursion'',
       sig_signalType = FAILED_ATTEMPT, sig_value = 1, sig_windowHours = 24,
       sig_raw = RawStatus ''FAILED'', sig_createdAt = 2000 \<rparr>"





text \<open>A store whose only profile is a stale high score, with no signals at all.\<close>

definition staleDb :: db where
  "staleDb =
     \<lparr> AIInteractions = [], StruggleSignals = [],
       StruggleProfiles =
         [7 \<mapsto> \<lparr> prof_userId = 7, prof_track = ''AI'', prof_cohortId = ''default'',
                 struggleScore = 9.5, prof_trend = UP, prof_supportLevel = HIGH,
                 lastEvaluatedAt = Some 1000,
                 contributingSignals =
                   [\<lparr> cs_signalType = REPEATED_TOPIC, cs_weight = 0.25, cs_value = 1 \<rparr>],
                 lastReasonSummary = ''repeated topic'' \<rparr>],
       TutorCareNetworks = Map.empty, TutorAlerts = [], nextId = 0 \<rparr>"

text \<open>
  A student with a care network of two tutors and a profile of a given score with trend
  \<open>STABLE\<close> and support level \<open>MEDIUM\<close>; and the store after the alert dispatcher
  has run on it at instant 2000 with score 9.2.
\<close>

definition demoProfile :: "real \<Rightarrow> struggleProfile" where
  "demoProfile score =
     \<lparr> prof_userId = 7, prof_track = ''AI'', prof_cohortId = ''default'',
       struggleScore = score, prof_trend = STABLE, prof_supportLevel = MEDIUM,
       lastEvaluatedAt = Some 1500, contributingSignals = [],
       lastReasonSummary = ''repeated topic'' \<rparr>"

definition demoNetwork :: tutorCareNetwork where
  "demoNetwork = \<lparr> net_studentId = 7, tutorIds = [10, 11], lastInteractionAt = Some 500 \<rparr>"

definition careDb :: "real \<Rightarrow> db" where
  "careDb score =
     \<lparr> AIInteractions = [], StruggleSignals = [],
       StruggleProfiles = [7 \<mapsto> demoProfile score],
       TutorCareNetworks = [7 \<mapsto> demoNetwork],
       TutorAlerts = [], nextId = 100 \<rparr>"

definition demoAlert :: "nat \<Rightarrow> nat \<Rightarrow> tutorAlert" where
  "demoAlert alertId tutorId =
     \<lparr> alert_id = alertId, alert_tutorId = tutorId, alert_studentId = 7,
       alert_urgency = URGENT, alert_topic = ''repeated topic'', alert_struggleScore = 9.2,
       alert_reasonSummary = ''A learner you helped before may benefit from support.'',
       isRead = False, alert_createdAt = 2000, alert_updatedAt = 2000 \<rparr>"

definition alertedDb :: db where
  "alertedDb = (careDb 9.2)\<lparr>TutorAlerts := [demoAlert 100 10, demoAlert 101 11], nextId := 102\<rparr>"



text \<open>The first alert of that store after its tutor has marked it as read at instant 5000.\<close>

definition readAlert :: tutorAlert where
  "readAlert = (demoAlert 100 10)\<lparr>isRead := True, alert_updatedAt := 5000\<rparr>"

section \<open>Properties of the score aggregator\<close>

lemma orZero_simps: "orZero None = 0" "orZero (Some v) = v"
  by (simp_all add: orZero_def)

lemma rawScoreOf_unfold:
  "rawScoreOf aggregated =
     orZero (aggregated REPEATED_TOPIC) / 4 + orZero (aggregated FAILED_ATTEMPT) / 5
     + 3 * orZero (aggregated NEGATIVE_SENTIMENT) / 20 + 3 * orZero (aggregated ENGAGEMENT_DROP) / 20
     + 3 * orZero (aggregated LONG_RESPONSE_TIME) / 20 + orZero (aggregated HINT_DEPENDENCY) / 10"
  by (simp add: rawScoreOf_def WEIGHTS_def Let_def)

lemma orZero_bounds:
  assumes "\<forall>k v. aggregated k = Some v \<longrightarrow> 0 \<le> v \<and> v \<le> 1"
  shows "0 \<le> orZero (aggregated k) \<and> orZero (aggregated k) \<le> 1"
  using assms by (cases "aggregated k") (auto simp: orZero_def)

lemma Math_round_mono: "x \<le> y \<Longrightarrow> Math_round x \<le> Math_round y"
  by (simp add: Math_round_def floor_mono)

lemma Math_round_int: "Math_round (of_int n) = of_int n"
  unfolding Math_round_def by (simp add: floor_eq_iff) 

lemma scoreOfRaw_unclamped:
  assumes "0 \<le> raw" "raw \<le> 1"
  shows "scoreOfRaw raw = Math_round ((1 + raw * 9) * 10) / 10"
proof -
  have lo: "Math_round 10 \<le> Math_round ((1 + raw * 9) * 10)"
    using assms by (intro Math_round_mono) simp
  have hi: "Math_round ((1 + raw * 9) * 10) \<le> Math_round 100"
    using assms by (intro Math_round_mono) simp
  have "Math_round 10 = 10" "Math_round 100 = 100"
    using Math_round_int [of 10] Math_round_int [of 100] by simp_all
  with lo hi show ?thesis by (simp add: scoreOfRaw_def)
qed

text \<open>
  Claim C3 (score bounds). The weights of the table sum to 1. Whenever every per-type
  maximum handed to the weighting loop lies in \<open>[0, 1]\<close>, the raw weighted sum lies in
  \<open>[0, 1]\<close>, the score is \<open>round((1 + raw * 9) * 10) / 10\<close> with the clamp to
  \<open>[1, 10]\<close> inactive, and the score lies in \<open>[1, 10]\<close>.
\<close>

theorem score_bounds:
  assumes "\<forall>k v. aggregated k = Some v \<longrightarrow> 0 \<le> v \<and> v \<le> 1"
  shows "sum_list (map snd WEIGHTS) = 1
    \<and> 0 \<le> rawScoreOf aggregated \<and> rawScoreOf aggregated \<le> 1
    \<and> scoreOfRaw (rawScoreOf aggregated)
        = Math_round ((1 + rawScoreOf aggregated * 9) * 10) / 10
    \<and> 1 \<le> scoreOfRaw (rawScoreOf aggregated) \<and> scoreOfRaw (rawScoreOf aggregated) \<le> 10"
proof -
  note b = orZero_bounds [OF assms]
  have w: "sum_list (map snd WEIGHTS) = 1" by (simp add: WEIGHTS_def)
  have lo: "0 \<le> rawScoreOf aggregated"
    unfolding rawScoreOf_unfold
    using b [of REPEATED_TOPIC] b [of FAILED_ATTEMPT] b [of NEGATIVE_SENTIMENT]
      b [of ENGAGEMENT_DROP] b [of LONG_RESPONSE_TIME] b [of HINT_DEPENDENCY]
    by linarith
  have hi: "rawScoreOf aggregated \<le> 1"
    unfolding rawScoreOf_unfold
    using b [of REPEATED_TOPIC] b [of FAILED_ATTEMPT] b [of NEGATIVE_SENTIMENT]
      b [of ENGAGEMENT_DROP] b [of LONG_RESPONSE_TIME] b [of HINT_DEPENDENCY]
    by linarith
  have cl: "1 \<le> scoreOfRaw (rawScoreOf aggregated) \<and> scoreOfRaw (rawScoreOf aggregated) \<le> 10"
    by (simp add: scoreOfRaw_def)
  from w lo hi cl scoreOfRaw_unclamped [OF lo hi] show ?thesis by simp
qed

theorem score_bounds_witness:
  "rawScoreOf [FAILED_ATTEMPT \<mapsto> 1, HINT_DEPENDENCY \<mapsto> 1 / 2] = 1 / 4
   \<and> 0 \<le> rawScoreOf [FAILED_ATTEMPT \<mapsto> 1, HINT_DEPENDENCY \<mapsto> 1 / 2]
   \<and> rawScoreOf [FAILED_ATTEMPT \<mapsto> 1, HINT_DEPENDENCY \<mapsto> 1 / 2] \<le> 1
   \<and> scoreOfRaw (rawScoreOf [FAILED_ATTEMPT \<mapsto> 1, HINT_DEPENDENCY \<mapsto> 1 / 2]) = 33 / 10
   \<and> 1 \<le> scoreOfRaw (rawScoreOf [FAILED_ATTEMPT \<mapsto> 1, HINT_DEPENDENCY \<mapsto> 1 / 2])
   \<and> scoreOfRaw (rawScoreOf [FAILED_ATTEMPT \<mapsto> 1, HINT_DEPENDENCY \<mapsto> 1 / 2]) \<le> 10"
proof -
  let ?m = "[FAILED_ATTEMPT \<mapsto> 1::real, HINT_DEPENDENCY \<mapsto> 1 / 2]"
  have h: "\<forall>k v. ?m k = Some v \<longrightarrow> 0 \<le> v \<and> v \<le> 1" by (auto split: if_splits)
  have r: "rawScoreOf ?m = 1 / 4" by (simp add: rawScoreOf_unfold orZero_def)
  have "scoreOfRaw (rawScoreOf ?m) = Math_round ((1 + rawScoreOf ?m * 9) * 10) / 10"
    using score_bounds [OF h] by blast
  also have "\<dots> = 33 / 10" unfolding r Math_round_def
    by (simp add: floor_eq_iff)
  finally have "scoreOfRaw (rawScoreOf ?m) = 33 / 10" .
  with r score_bounds [OF h] show ?thesis by blast
qed

text \<open>
  Claim C6 (empty-window reset). When the user has no signal in the evaluation window,
  \<open>recomputeForUser\<close> returns and stores a profile with score 1, trend \<open>STABLE\<close>, support
  level \<open>LOW\<close>, no contributing signals and an empty reason summary, whatever profile
  was stored before; the model of the call has no error branch, and only that user's
  profile changes.
\<close>

theorem empty_window_reset:
  assumes "signalsInWindow now (windowOrDefault options) userId d = []"
  shows "\<exists>p d'. recomputeForUser now userId options d = (p, d')
    \<and> StruggleProfiles d' userId = Some p
    \<and> struggleScore p = 1 \<and> prof_trend p = STABLE \<and> prof_supportLevel p = LOW
    \<and> contributingSignals p = [] \<and> lastReasonSummary p = []
    \<and> lastEvaluatedAt p = Some now
    \<and> (\<forall>u. u \<noteq> userId \<longrightarrow> StruggleProfiles d' u = StruggleProfiles d u)
    \<and> StruggleSignals d' = StruggleSignals d \<and> TutorAlerts d' = TutorAlerts d"
  using assms by (simp add: recomputeForUser_def upsertProfile_def Let_def)

theorem empty_window_reset_witness:
  "signalsInWindow 90000000 (windowOrDefault None) 7 staleDb = []
   \<and> (\<exists>p d'. recomputeForUser 90000000 7 None staleDb = (p, d')
        \<and> StruggleProfiles d' 7 = Some p
        \<and> struggleScore p = 1 \<and> prof_trend p = STABLE \<and> prof_supportLevel p = LOW
        \<and> contributingSignals p = [] \<and> lastReasonSummary p = [])"
proof -
  have h: "signalsInWindow 90000000 (windowOrDefault None) 7 staleDb = []"
    by (simp add: signalsInWindow_def staleDb_def)
  from empty_window_reset [OF h] h show ?thesis by blast
qed

section \<open>Properties of the linear normalization\<close>

text \<open>
  Claim C7 (normalization), as amended. Over the real numbers, for all \<open>x\<close>, \<open>min\<close>,
  \<open>max\<close> the result of \<open>_normalizeLinear\<close> lies in \<open>[0, 1]\<close>, it is 0 at \<open>x = min\<close>,
  and it is monotonic non-decreasing in \<open>x\<close>. It is 1 at \<open>x = max\<close> when \<open>min < max\<close>;
  on a degenerate range, \<open>max \<le> min\<close>, the guard of line 319 makes it 0 for every
  \<open>x\<close>, also at \<open>x = max\<close>.
\<close>

theorem normalizeLinear_properties:
  "0 \<le> normalizeLinear x mn mx \<and> normalizeLinear x mn mx \<le> 1
   \<and> normalizeLinear mn mn mx = 0
   \<and> (mn < mx \<longrightarrow> normalizeLinear mx mn mx = 1)
   \<and> (mx \<le> mn \<longrightarrow> normalizeLinear x mn mx = 0 \<and> normalizeLinear mx mn mx = 0)
   \<and> (x \<le> y \<longrightarrow> normalizeLinear x mn mx \<le> normalizeLinear y mn mx)"
proof -
  have mono: "normalizeLinear x mn mx \<le> normalizeLinear y mn mx" if "x \<le> y"
  proof (cases "mx \<le> mn \<or> x \<le> mn \<or> mx \<le> y")
    case True
    with that show ?thesis by (auto simp: normalizeLinear_def)
  next
    case False
    with that have "(x - mn) / (mx - mn) \<le> (y - mn) / (mx - mn)"
      by (intro divide_right_mono) simp_all
    with False that show ?thesis by (simp add: normalizeLinear_def)
  qed
  have rng: "0 \<le> normalizeLinear x mn mx \<and> normalizeLinear x mn mx \<le> 1"
    by (auto simp: normalizeLinear_def field_simps)
  have deg: "normalizeLinear z mn mx = 0" if "mx \<le> mn" for z
    using that by (simp add: normalizeLinear_def)
  show ?thesis using mono rng deg by (auto simp: normalizeLinear_def)
qed

theorem normalizeLinear_properties_witness:
  "(1::real) < 5 \<and> normalizeLinear 5 1 5 = 1 \<and> (3::real) \<le> 4
   \<and> normalizeLinear 3 1 5 = 1 / 2 \<and> normalizeLinear 3 1 5 \<le> normalizeLinear 4 1 5
   \<and> (1::real) \<le> 3 \<and> normalizeLinear 7 3 1 = 0 \<and> normalizeLinear 1 3 1 = 0"
  using normalizeLinear_properties [of 3 1 5 4] normalizeLinear_properties [of 7 3 1 7]
  by (simp add: normalizeLinear_def)

text \<open>
  The claim as stated, with \<open>normalize(max, min, max) = 1\<close> for every \<open>min\<close> and
  \<open>max\<close>, fails on the range from 3 down to 1.
\<close>

theorem normalizeLinear_max_counterexample:
  "normalizeLinear 1 3 1 = 0 \<and> normalizeLinear 1 3 1 \<noteq> 1"
  by (simp add: normalizeLinear_def)

section \<open>Properties of the signal extractor\<close>

lemma clamp01_range: "0 \<le> clamp01 v \<and> clamp01 v \<le> 1"
  by (simp add: clamp01_def)

lemma signal_fields:
  "sp_signalType (signal i tr tp k v w raw) = k"
  "sp_interactionId (signal i tr tp k v w raw) = ai_id i"
  "sp_userId (signal i tr tp k v w raw) = ai_userId i"
  "sp_value (signal i tr tp k v w raw) = clamp01 v"
  by (simp_all add: signal_def)

lemma failedAttemptRule_shape: "ruleShape i FAILED_ATTEMPT (failedAttemptRule i w)"
  using clamp01_range by (simp add: ruleShape_def failedAttemptRule_def signal_fields)

lemma repeatedTopicRule_shape: "ruleShape i REPEATED_TOPIC (repeatedTopicRule i w recent)"
  using clamp01_range by (simp add: ruleShape_def repeatedTopicRule_def Let_def signal_fields)

lemma longResponseTimeRule_shape:
  "ruleShape i LONG_RESPONSE_TIME (longResponseTimeRule i w recent)"
  using clamp01_range
  by (simp add: ruleShape_def longResponseTimeRule_def Let_def signal_fields split: option.splits)

lemma negativeSentimentRule_shape:
  "ruleShape i NEGATIVE_SENTIMENT (negativeSentimentRule i w)"
  using clamp01_range by (simp add: ruleShape_def negativeSentimentRule_def Let_def signal_fields)

lemma hintDependencyRule_shape: "ruleShape i HINT_DEPENDENCY (hintDependencyRule i w recent)"
  using clamp01_range by (simp add: ruleShape_def hintDependencyRule_def Let_def signal_fields)

lemma engagementDropRule_shape:
  "ruleShape i ENGAGEMENT_DROP (engagementDropRule now i w recent)"
  using clamp01_range
  by (simp add: ruleShape_def engagementDropRule_def signal_fields split: option.splits)

lemmas rule_shapes = failedAttemptRule_shape repeatedTopicRule_shape longResponseTimeRule_shape
  negativeSentimentRule_shape hintDependencyRule_shape engagementDropRule_shape

lemma ruleShape_member:
  "ruleShape i k ps \<Longrightarrow> p \<in> set ps \<Longrightarrow>
     sp_signalType p = k \<and> sp_interactionId p = ai_id i \<and> sp_userId p = ai_userId i
     \<and> 0 \<le> sp_value p \<and> sp_value p \<le> 1"
  by (auto simp: ruleShape_def)

lemma ruleShape_types: "ruleShape i k ps \<Longrightarrow> map sp_signalType ps = [] \<or> map sp_signalType ps = [k]"
  by (auto simp: ruleShape_def)

lemma signalPayloads_valid:
  "p \<in> set (signalPayloads now i w recent) \<Longrightarrow>
     0 \<le> sp_value p \<and> sp_value p \<le> 1 \<and> sp_interactionId p = ai_id i
     \<and> sp_userId p = ai_userId i"
  unfolding signalPayloads_def set_append Un_iff
  using rule_shapes [THEN ruleShape_member, of p] by blast

lemma signalPayloads_distinct:
  "distinct (map sp_signalType (signalPayloads now i w recent))"
proof -
  note t = rule_shapes [THEN ruleShape_types]
  show ?thesis
    unfolding signalPayloads_def map_append
    using t(1) [of i w] t(2) [of i w recent] t(3) [of i w recent] t(4) [of i w]
      t(5) [of i w recent] t(6) [of now i w recent]
    by (elim disjE) simp_all
qed

lemma filter_key_le_one:
  "distinct (map f xs) \<Longrightarrow> length (filter (\<lambda>x. f x = k \<and> P x) xs) \<le> 1"
proof (induction xs)
  case Nil
  then show ?case by simp
next
  case (Cons x xs)
  show ?case
  proof (cases "f x = k")
    case True
    with Cons.prems have "\<forall>y \<in> set xs. f y \<noteq> k" by (auto simp: image_iff)
    then have "filter (\<lambda>x. f x = k \<and> P x) xs = []" by (simp add: filter_empty_conv)
    then show ?thesis by simp
  next
    case False
    with Cons show ?thesis by simp
  qed
qed

lemma stored_append:
  "stored (d\<lparr>StruggleSignals := StruggleSignals d @ [signalDoc now p]\<rparr>) q
     = (stored d q \<or> (sp_interactionId q = sp_interactionId p \<and> sp_signalType q = sp_signalType p))"
  by (auto simp: stored_def signalDoc_def list_ex_iff)

lemma writeSignals_spec:
  assumes "\<forall>p \<in> set ps. 0 \<le> sp_value p \<and> sp_value p \<le> 1"
    and "distinct (map (\<lambda>p. (sp_interactionId p, sp_signalType p)) ps)"
  shows "writeSignals now ps r d =
    (Inr (r\<lparr> created := created r + length (filter (\<lambda>p. \<not> stored d p) ps),
             skipped := skipped r + length (filter (stored d) ps),
             signals := signals r @ map (signalDoc now) (filter (\<lambda>p. \<not> stored d p) ps) \<rparr>),
     d\<lparr>StruggleSignals :=
          StruggleSignals d @ map (signalDoc now) (filter (\<lambda>p. \<not> stored d p) ps)\<rparr>)"
  using assms
proof (induction ps arbitrary: r d)
  case Nil
  then show ?case by simp
next
  case (Cons p ps)
  have v: "\<not> (sp_value p < 0 \<or> sp_value p > 1)" using Cons.prems(1) by auto
  have rest: "\<forall>p \<in> set ps. 0 \<le> sp_value p \<and> sp_value p \<le> 1"
    "distinct (map (\<lambda>p. (sp_interactionId p, sp_signalType p)) ps)"
    using Cons.prems by auto
  show ?case
  proof (cases "stored d p")
    case True
    then have c: "StruggleSignal_create now p d = (Inl (MongoServerError 11000), d)"
      using v by (simp add: StruggleSignal_create_def stored_def)
    show ?thesis
      using True by (simp add: c Cons.IH [OF rest])
  next
    case False
    let ?d1 = "d\<lparr>StruggleSignals := StruggleSignals d @ [signalDoc now p]\<rparr>"
    have c: "StruggleSignal_create now p d = (Inr (signalDoc now p), ?d1)"
      using v False by (simp add: StruggleSignal_create_def stored_def)
    have same: "stored ?d1 q = stored d q" if "q \<in> set ps" for q
    proof -
      from that Cons.prems(2)
      have "(sp_interactionId q, sp_signalType q) \<noteq> (sp_interactionId p, sp_signalType p)"
        by (auto simp: image_iff)
      then show ?thesis by (auto simp: stored_append)
    qed
    have f1: "filter (\<lambda>p. \<not> stored ?d1 p) ps = filter (\<lambda>p. \<not> stored d p) ps"
      by (rule filter_cong) (simp_all add: same)
    have f2: "filter (stored ?d1) ps = filter (stored d) ps"
      by (rule filter_cong) (simp_all add: same)
    show ?thesis
      using False by (simp add: c Cons.IH [OF rest] f1 f2)
  qed
qed

lemma plannedPayloads_valid:
  "\<forall>p \<in> set (plannedPayloads now i options d). 0 \<le> sp_value p \<and> sp_value p \<le> 1"
  using signalPayloads_valid by (auto simp: plannedPayloads_def)

lemma plannedPayloads_interaction:
  "p \<in> set (plannedPayloads now i options d) \<Longrightarrow> sp_interactionId p = ai_id i"
  using signalPayloads_valid by (auto simp: plannedPayloads_def split: if_splits)

lemma plannedPayloads_distinct_types:
  "distinct (map sp_signalType (plannedPayloads now i options d))"
  using signalPayloads_distinct by (simp add: plannedPayloads_def)

lemma distinct_map_finer:
  assumes "distinct (map g xs)" and "\<forall>x y. f x = f y \<longrightarrow> g x = g y"
  shows "distinct (map f xs)"
  using assms(1)
proof (induction xs)
  case Nil
  then show ?case by simp
next
  case (Cons x xs)
  have "f x \<notin> f ` set xs"
  proof
    assume "f x \<in> f ` set xs"
    then obtain y where "y \<in> set xs" "f x = f y" by blast
    with assms(2) have "g x \<in> g ` set xs" by (metis imageI)
    with Cons.prems show False by simp
  qed
  with Cons show ?case by simp
qed

lemma plannedPayloads_distinct:
  "distinct (map (\<lambda>p. (sp_interactionId p, sp_signalType p)) (plannedPayloads now i options d))"
  by (rule distinct_map_finer [OF plannedPayloads_distinct_types]) simp

lemma extract_eq:
  "extractSignalsFromInteraction now i options d =
     writeSignals now (plannedPayloads now i options d) emptyResult d"
  by (simp add: extractSignalsFromInteraction_def plannedPayloads_def Let_def)

lemma stored_iff_count:
  "stored d p = (0 < signalCount (sp_interactionId p) (sp_signalType p) d)"
  by (auto simp: stored_def signalCount_def list_ex_iff filter_empty_conv)

lemma signalCount_written:
  assumes "distinct (map (\<lambda>p. (sp_interactionId p, sp_signalType p)) ps)"
  shows "signalCount iid k
           (d\<lparr>StruggleSignals :=
                StruggleSignals d @ map (signalDoc now) (filter (\<lambda>p. \<not> stored d p) ps)\<rparr>)
         \<le> max 1 (signalCount iid k d)"
proof -
  let ?f = "\<lambda>p. (sp_interactionId p, sp_signalType p)"
  have cnt: "signalCount iid k
           (d\<lparr>StruggleSignals :=
                StruggleSignals d @ map (signalDoc now) (filter (\<lambda>p. \<not> stored d p) ps)\<rparr>)
        = signalCount iid k d
          + length (filter (\<lambda>p. ?f p = (iid, k) \<and> \<not> stored d p) ps)"
    by (simp add: signalCount_def filter_map comp_def signalDoc_def conj_commute)
  show ?thesis
  proof (cases "0 < signalCount iid k d")
    case True
    then have "\<forall>p \<in> set ps. ?f p = (iid, k) \<longrightarrow> stored d p"
      by (auto simp: stored_iff_count)
    then have "filter (\<lambda>p. ?f p = (iid, k) \<and> \<not> stored d p) ps = []"
      by (auto simp: filter_empty_conv)
    with cnt show ?thesis by simp
  next
    case False
    with cnt filter_key_le_one [OF assms, of "(iid, k)" "\<lambda>p. \<not> stored d p"]
    show ?thesis by simp
  qed
qed

lemma plannedPayloads_cong:
  "AIInteractions d' = AIInteractions d \<Longrightarrow>
     plannedPayloads now i options d' = plannedPayloads now i options d"
  by (simp add: plannedPayloads_def recentInteractions_def)

lemma stored_after_write:
  assumes "p \<in> set ps"
  shows "stored (d\<lparr>StruggleSignals :=
                StruggleSignals d @ map (signalDoc now) (filter (\<lambda>p. \<not> stored d p) ps)\<rparr>) p"
proof (cases "stored d p")
  case True
  then show ?thesis by (auto simp: stored_def list_ex_iff)
next
  case False
  with assms have "signalDoc now p \<in> set (map (signalDoc now) (filter (\<lambda>p. \<not> stored d p) ps))"
    by simp
  then show ?thesis
    unfolding stored_def list_ex_iff
    by (intro bexI [of _ "signalDoc now p"]) (simp_all add: signalDoc_def)
qed

text \<open>
  Claim C2 (signal-extraction idempotence). Two runs of \<open>extractSignalsFromInteraction\<close>
  on the same interaction with the same window option, at any two instants, both return a
  result and never an error; after each, the interaction has at most one stored signal
  per signal type (no more than before, where the store already held several). Each run
  counts as skipped exactly the payloads whose (interaction, type) pair was already
  stored, and as created the others. A second run at the same instant creates nothing,
  skips every payload and leaves the store as it is.
\<close>

theorem extraction_idempotent:
  "\<exists>r1 d1 r2 d2.
     extractSignalsFromInteraction now i options d = (Inr r1, d1)
   \<and> extractSignalsFromInteraction now' i options d1 = (Inr r2, d2)
   \<and> (\<forall>k. signalCount (ai_id i) k d1 \<le> max 1 (signalCount (ai_id i) k d))
   \<and> (\<forall>k. signalCount (ai_id i) k d2 \<le> max 1 (signalCount (ai_id i) k d))
   \<and> created r1 = length (filter (\<lambda>p. \<not> stored d p) (plannedPayloads now i options d))
   \<and> skipped r1 = length (filter (stored d) (plannedPayloads now i options d))
   \<and> created r2 = length (filter (\<lambda>p. \<not> stored d1 p) (plannedPayloads now' i options d1))
   \<and> skipped r2 = length (filter (stored d1) (plannedPayloads now' i options d1))
   \<and> (now' = now \<longrightarrow>
        r2 = \<lparr> created = 0, skipped = length (plannedPayloads now i options d), signals = [] \<rparr>
        \<and> d2 = d1)"
proof -
  define ps where "ps = plannedPayloads now i options d"
  define d1 where
    "d1 = d\<lparr>StruggleSignals :=
              StruggleSignals d @ map (signalDoc now) (filter (\<lambda>p. \<not> stored d p) ps)\<rparr>"
  define r1 where
    "r1 = emptyResult\<lparr> created := created emptyResult + length (filter (\<lambda>p. \<not> stored d p) ps),
             skipped := skipped emptyResult + length (filter (stored d) ps),
             signals := signals emptyResult
                        @ map (signalDoc now) (filter (\<lambda>p. \<not> stored d p) ps) \<rparr>"
  define ps' where "ps' = plannedPayloads now' i options d1"
  define d2 where
    "d2 = d1\<lparr>StruggleSignals :=
               StruggleSignals d1 @ map (signalDoc now') (filter (\<lambda>p. \<not> stored d1 p) ps')\<rparr>"
  define r2 where
    "r2 = emptyResult\<lparr> created := created emptyResult + length (filter (\<lambda>p. \<not> stored d1 p) ps'),
             skipped := skipped emptyResult + length (filter (stored d1) ps'),
             signals := signals emptyResult
                        @ map (signalDoc now') (filter (\<lambda>p. \<not> stored d1 p) ps') \<rparr>"
  have e1: "extractSignalsFromInteraction now i options d = (Inr r1, d1)"
    unfolding extract_eq r1_def d1_def ps_def
    by (rule writeSignals_spec [OF plannedPayloads_valid plannedPayloads_distinct])
  have e2: "extractSignalsFromInteraction now' i options d1 = (Inr r2, d2)"
    unfolding extract_eq r2_def d2_def ps'_def
    by (rule writeSignals_spec [OF plannedPayloads_valid plannedPayloads_distinct])
  have c1: "signalCount (ai_id i) k d1 \<le> max 1 (signalCount (ai_id i) k d)" for k
    unfolding d1_def ps_def by (rule signalCount_written [OF plannedPayloads_distinct])
  have c2: "signalCount (ai_id i) k d2 \<le> max 1 (signalCount (ai_id i) k d)" for k
  proof -
    have "signalCount (ai_id i) k d2 \<le> max 1 (signalCount (ai_id i) k d1)"
      unfolding d2_def ps'_def by (rule signalCount_written [OF plannedPayloads_distinct])
    with c1 [of k] show ?thesis by linarith
  qed
  have cr1: "created r1 = length (filter (\<lambda>p. \<not> stored d p) ps)"
    and sk1: "skipped r1 = length (filter (stored d) ps)"
    by (simp_all add: r1_def emptyResult_def)
  have cr2: "created r2 = length (filter (\<lambda>p. \<not> stored d1 p) ps')"
    and sk2: "skipped r2 = length (filter (stored d1) ps')"
    by (simp_all add: r2_def emptyResult_def)
  have same: "r2 = \<lparr> created = 0, skipped = length ps, signals = [] \<rparr> \<and> d2 = d1"
    if "now' = now"
  proof -
    have "AIInteractions d1 = AIInteractions d" by (simp add: d1_def)
    then have eq: "ps' = ps" unfolding ps'_def ps_def that by (rule plannedPayloads_cong)
    have "\<forall>p \<in> set ps. stored d1 p" unfolding d1_def using stored_after_write by blast
    then have f: "filter (stored d1) ps = ps" "filter (\<lambda>p. \<not> stored d1 p) ps = []"
      by (simp_all add: filter_empty_conv)
    show ?thesis unfolding r2_def d2_def eq f by (simp add: emptyResult_def)
  qed
  show ?thesis
  proof (rule exI [of _ r1], rule exI [of _ d1], rule exI [of _ r2], rule exI [of _ d2],
      intro conjI allI impI)
    show "extractSignalsFromInteraction now i options d = (Inr r1, d1)" by (rule e1)
    show "extractSignalsFromInteraction now' i options d1 = (Inr r2, d2)" by (rule e2)
    show "signalCount (ai_id i) k d1 \<le> max 1 (signalCount (ai_id i) k d)" for k by (rule c1)
    show "signalCount (ai_id i) k d2 \<le> max 1 (signalCount (ai_id i) k d)" for k by (rule c2)
    show "created r1 = length (filter (\<lambda>p. \<not> stored d p) (plannedPayloads now i options d))"
      using cr1 by (simp add: ps_def)
    show "skipped r1 = length (filter (stored d) (plannedPayloads now i options d))"
      using sk1 by (simp add: ps_def)
    show "created r2 = length (filter (\<lambda>p. \<not> stored d1 p) (plannedPayloads now' i options d1))"
      using cr2 by (simp add: ps'_def)
    show "skipped r2 = length (filter (stored d1) (plannedPayloads now' i options d1))"
      using sk2 by (simp add: ps'_def)
    show "r2 = \<lparr> created = 0, skipped = length (plannedPayloads now i options d), signals = [] \<rparr>"
      if "now' = now" using same [OF that] by (simp add: ps_def)
    show "d2 = d1" if "now' = now" using same [OF that] by simp
  qed
qed

lemma demo_text:
  "\<forall>w \<in> set (negativeLexicon @ hintMarkers).
     \<not> str_includes (toLowerCase ''Why base case'') w"
  by (simp add: negativeLexicon_def hintMarkers_def toLowerCase_def lowerChar_def)

lemma sentiment_nonneg:
  assumes "\<forall>w \<in> set negativeLexicon. \<not> str_includes (toLowerCase text) w"
  shows "0 \<le> sentimentLexiconScore text"
proof -
  from assms have "filter (str_includes (toLowerCase text)) negativeLexicon = []"
    by (simp add: filter_empty_conv)
  then show ?thesis by (simp add: sentimentLexiconScore_def Let_def)
qed

lemma negativeSentimentRule_quiet:
  assumes "\<forall>w \<in> set negativeLexicon.
             \<not> str_includes (toLowerCase (orDefault (ai_inputText i) [])) w"
  shows "negativeSentimentRule i w = []"
proof -
  let ?s = "sentimentLexiconScore (orDefault (ai_inputText i) [])"
  have "0 \<le> ?s" by (rule sentiment_nonneg [OF assms])
  then have "(- ?s + 1 / 10) / (11 / 10) \<le> 1 / 11" by (simp add: field_simps)
  then have "clamp01 ((- ?s + 1 / 10) / (11 / 10)) \<le> 1 / 11"
    unfolding clamp01_def by (intro max.boundedI min.coboundedI2) simp_all
  then have "clamp01 ((- ?s + 1 / 10) / (11 / 10)) < 45 / 100" by linarith
  then show ?thesis by (simp add: negativeSentimentRule_def Let_def)
qed

lemma hintDependencyRule_quiet:
  assumes "\<forall>w \<in> set hintMarkers. \<not> str_includes (toLowerCase (orDefault (ai_inputText i) [])) w"
  shows "hintDependencyRule i w recent = []"
  using assms by (simp add: hintDependencyRule_def isHint_def list_ex_iff)

lemma repeatedTopicRule_alone: "repeatedTopicRule i w [i] = []"
  by (simp add: repeatedTopicRule_def Let_def)

lemma longResponseTimeRule_alone: "longResponseTimeRule i w [i] = []"
  by (cases "ai_processingTime i")
     (simp_all add: longResponseTimeRule_def Let_def List.map_filter_simps)

lemma engagementDropRule_alone: "engagementDropRule now i w [i] = []"
  by (simp add: engagementDropRule_def computeEngagementDrop_def)

lemma signalPayloads_single_failed:
  assumes "ai_status i = ''FAILED''"
    and "\<forall>w \<in> set (negativeLexicon @ hintMarkers).
           \<not> str_includes (toLowerCase (orDefault (ai_inputText i) [])) w"
  shows "signalPayloads now i w [i] =
           [signal i (trackOf i) (topicOf i) FAILED_ATTEMPT 1 w (RawStatus ''FAILED'')]"
proof -
  from assms(2) have n: "negativeSentimentRule i w = []" and h: "hintDependencyRule i w [i] = []"
    by (simp_all add: negativeSentimentRule_quiet hintDependencyRule_quiet)
  show ?thesis
    unfolding signalPayloads_def n h repeatedTopicRule_alone longResponseTimeRule_alone
      engagementDropRule_alone
    using assms(1) by (simp add: failedAttemptRule_def)
qed

lemma repeatedTopicRule_empty: "repeatedTopicRule i w [] = []"
  by (simp add: repeatedTopicRule_def Let_def)

lemma longResponseTimeRule_empty:
  assumes "\<forall>l. ai_processingTime i = Some l \<longrightarrow> l < 6000"
  shows "longResponseTimeRule i w [] = []"
proof (cases "ai_processingTime i")
  case None
  then show ?thesis by (simp add: longResponseTimeRule_def)
next
  case (Some l)
  with assms have "l < 6000" by simp
  then have "\<not> 15 / 10 \<le> l / 4000" by simp
  with Some show ?thesis
    by (simp add: longResponseTimeRule_def Let_def List.map_filter_simps)
qed

lemma engagementDropRule_empty: "engagementDropRule now i w [] = []"
  by (simp add: engagementDropRule_def computeEngagementDrop_def)

lemma signalPayloads_quiet_window:
  assumes "ai_status i = ''FAILED''"
    and "\<forall>w \<in> set (negativeLexicon @ hintMarkers).
           \<not> str_includes (toLowerCase (orDefault (ai_inputText i) [])) w"
    and "recent = [i] \<or> recent = [] \<and> (\<forall>l. ai_processingTime i = Some l \<longrightarrow> l < 6000)"
  shows "signalPayloads now i w recent =
           [signal i (trackOf i) (topicOf i) FAILED_ATTEMPT 1 w (RawStatus ''FAILED'')]"
proof -
  from assms(2) have n: "negativeSentimentRule i w = []"
    and h: "hintDependencyRule i w recent = []"
    by (simp_all add: negativeSentimentRule_quiet hintDependencyRule_quiet)
  from assms(3) show ?thesis
  proof
    assume "recent = [i]"
    then show ?thesis using signalPayloads_single_failed [OF assms(1) assms(2)] by simp
  next
    assume e: "recent = [] \<and> (\<forall>l. ai_processingTime i = Some l \<longrightarrow> l < 6000)"
    then have l: "longResponseTimeRule i w [] = []" by (simp add: longResponseTimeRule_empty)
    from e h have h': "hintDependencyRule i w [] = []" by simp
    from e have r: "recent = []" by simp
    show ?thesis
      unfolding r signalPayloads_def n h' l repeatedTopicRule_empty engagementDropRule_empty
      using assms(1) by (simp add: failedAttemptRule_def)
  qed
qed



lemma extract_single_failed:
  assumes "\<not> roleGate i" and "ai_status i = ''FAILED''"
    and "recentInteractions now (windowOrDefault options) (ai_userId i) d = [i]
         \<or> recentInteractions now (windowOrDefault options) (ai_userId i) d = []
            \<and> (\<forall>l. ai_processingTime i = Some l \<longrightarrow> l < 6000)"
    and "\<forall>w \<in> set (negativeLexicon @ hintMarkers).
           \<not> str_includes (toLowerCase (orDefault (ai_inputText i) [])) w"
    and "\<forall>s \<in> set (StruggleSignals d). sig_interactionId s \<noteq> ai_id i"
    and "sig = signalDoc now (signal i (trackOf i) (topicOf i) FAILED_ATTEMPT 1
                 (windowOrDefault options) (RawStatus ''FAILED''))"
  shows "extractSignalsFromInteraction now i options d
           = (Inr \<lparr> created = 1, skipped = 0, signals = [sig] \<rparr>,
              d\<lparr>StruggleSignals := StruggleSignals d @ [sig]\<rparr>)"
proof -
  define pl where "pl = signal i (trackOf i) (topicOf i) FAILED_ATTEMPT 1
                 (windowOrDefault options) (RawStatus ''FAILED'')"
  have plf: "sp_signalType pl = FAILED_ATTEMPT" "sp_value pl = 1" "sp_interactionId pl = ai_id i"
    by (simp_all add: pl_def signal_fields clamp01_def)
  have planned: "plannedPayloads now i options d = [pl]"
    using assms(1) signalPayloads_quiet_window [OF assms(2) assms(4) assms(3)]
    by (simp add: plannedPayloads_def pl_def)
  have ns: "\<not> stored d pl"
    using assms(5) by (auto simp: stored_def list_ex_iff plf)
  have sig_eq: "sig = signalDoc now pl" by (simp add: assms(6) pl_def)
  have cr: "StruggleSignal_create now pl d
              = (Inr sig, d\<lparr>StruggleSignals := StruggleSignals d @ [sig]\<rparr>)"
    using ns by (simp add: StruggleSignal_create_def stored_def plf sig_eq)
  show ?thesis
    unfolding extract_eq planned by (simp add: cr emptyResult_def)
qed


lemma demo_facts:
  "\<not> roleGate demoInteraction"
  "ai_status demoInteraction = ''FAILED''"
  "recentInteractions 2000 (windowOrDefault None) (ai_userId demoInteraction)
     (demoDb demoInteraction) = [demoInteraction]"
  by (simp_all add: roleGate_def demoInteraction_def demoDb_def recentInteractions_def
      windowOrDefault_def hoursMs_def)

lemma demo_facts_absent:
  "\<not> roleGate absentRoleInteraction"
  "ai_status absentRoleInteraction = ''FAILED''"
  "recentInteractions 2000 (windowOrDefault None) (ai_userId absentRoleInteraction)
     (demoDb absentRoleInteraction) = [absentRoleInteraction]"
  by (simp_all add: roleGate_def demoInteraction_def demoDb_def recentInteractions_def
      windowOrDefault_def hoursMs_def absentRoleInteraction_def)

lemma demo_text':
  "\<forall>w \<in> set (negativeLexicon @ hintMarkers).
     \<not> str_includes (toLowerCase (orDefault (ai_inputText absentRoleInteraction) [])) w"
  "\<forall>w \<in> set (negativeLexicon @ hintMarkers).
     \<not> str_includes (toLowerCase (orDefault (ai_inputText demoInteraction) [])) w"
  using demo_text by (simp_all add: demoInteraction_def orDefault_def absentRoleInteraction_def)

lemma demo_signal:
  "demoSignal = signalDoc 2000 (signal absentRoleInteraction
      (trackOf absentRoleInteraction) (topicOf absentRoleInteraction)
      FAILED_ATTEMPT 1 (windowOrDefault None) (RawStatus ''FAILED''))"
  by (simp_all add: demoSignal_def signalDoc_def signal_def demoInteraction_def trackOf_def
      topicOf_def orDefault_def clamp01_def windowOrDefault_def absentRoleInteraction_def)

lemma demo_extract_absent_role:
  "extractSignalsFromInteraction 2000 absentRoleInteraction None (demoDb absentRoleInteraction)
   = (Inr \<lparr> created = 1, skipped = 0, signals = [demoSignal] \<rparr>,
      (demoDb absentRoleInteraction)\<lparr>StruggleSignals :=
         StruggleSignals (demoDb absentRoleInteraction) @ [demoSignal]\<rparr>)"
proof -
  have fresh: "\<forall>s \<in> set (StruggleSignals (demoDb absentRoleInteraction)).
      sig_interactionId s \<noteq> ai_id absentRoleInteraction"
    by (simp add: demoDb_def)
  show ?thesis
    by (rule extract_single_failed [OF demo_facts_absent(1) demo_facts_absent(2)
          disjI1 [OF demo_facts_absent(3)] demo_text'(1) fresh demo_signal])
qed








text \<open>
  Claim C8 (role precondition), as amended. For every interaction whose role is present,
  not empty and different from \<open>STUDENT\<close>, \<open>extractSignalsFromInteraction\<close> returns
  \<open>{created: 0, skipped: 0, signals: []}\<close> and leaves the store unchanged.
\<close>

theorem role_gate_present_role:
  assumes "ai_role i = Some r" and "r \<noteq> []" and "r \<noteq> ''STUDENT''"
  shows "extractSignalsFromInteraction now i options d
           = (Inr \<lparr> created = 0, skipped = 0, signals = [] \<rparr>, d)"
  using assms by (simp add: extractSignalsFromInteraction_def roleGate_def emptyResult_def)

theorem role_gate_present_role_witness:
  "ai_role (demoInteraction\<lparr>ai_role := Some ''ALUMNI''\<rparr>) = Some ''ALUMNI''
   \<and> ''ALUMNI'' \<noteq> [] \<and> ''ALUMNI'' \<noteq> ''STUDENT''
   \<and> extractSignalsFromInteraction 2000 (demoInteraction\<lparr>ai_role := Some ''ALUMNI''\<rparr>) None
        (demoDb demoInteraction)
      = (Inr \<lparr> created = 0, skipped = 0, signals = [] \<rparr>, demoDb demoInteraction)"
proof -
  have h: "ai_role (demoInteraction\<lparr>ai_role := Some ''ALUMNI''\<rparr>) = Some ''ALUMNI''"
    "''ALUMNI'' \<noteq> []" "''ALUMNI'' \<noteq> ''STUDENT''"
    by simp_all
  from role_gate_present_role [OF h] h show ?thesis by simp
qed

text \<open>
  The claim as stated covers every interaction that is not attributed to \<open>STUDENT\<close>. An
  interaction without a role is not, and the truthiness test in front of the comparison on
  line 138 lets it through: its failed attempt is recorded.
\<close>

theorem role_gate_absent_role_counterexample:
  "ai_role absentRoleInteraction \<noteq> Some ''STUDENT''
   \<and> extractSignalsFromInteraction 2000 absentRoleInteraction None (demoDb absentRoleInteraction)
      = (Inr \<lparr> created = 1, skipped = 0, signals = [demoSignal] \<rparr>,
         (demoDb absentRoleInteraction)\<lparr>StruggleSignals := [demoSignal]\<rparr>)
   \<and> extractSignalsFromInteraction 2000 absentRoleInteraction None (demoDb absentRoleInteraction)
      \<noteq> (Inr \<lparr> created = 0, skipped = 0, signals = [] \<rparr>, demoDb absentRoleInteraction)"
  unfolding demo_extract_absent_role by (simp add: demoDb_def absentRoleInteraction_def)

lemma role_irrelevant:
  "signal (i\<lparr>ai_role := r\<rparr>) = signal i"
  "trackOf (i\<lparr>ai_role := r\<rparr>) = trackOf i"
  "topicOf (i\<lparr>ai_role := r\<rparr>) = topicOf i"
  by (simp_all add: signal_def trackOf_def topicOf_def fun_eq_iff)

lemma rules_ignore_role:
  "failedAttemptRule (i\<lparr>ai_role := r\<rparr>) w = failedAttemptRule i w"
  "repeatedTopicRule (i\<lparr>ai_role := r\<rparr>) w recent = repeatedTopicRule i w recent"
  "longResponseTimeRule (i\<lparr>ai_role := r\<rparr>) w recent = longResponseTimeRule i w recent"
  "negativeSentimentRule (i\<lparr>ai_role := r\<rparr>) w = negativeSentimentRule i w"
  "hintDependencyRule (i\<lparr>ai_role := r\<rparr>) w recent = hintDependencyRule i w recent"
  "engagementDropRule now (i\<lparr>ai_role := r\<rparr>) w recent = engagementDropRule now i w recent"
  unfolding failedAttemptRule_def repeatedTopicRule_def longResponseTimeRule_def
    negativeSentimentRule_def hintDependencyRule_def engagementDropRule_def role_irrelevant
  by simp_all

lemma signalPayloads_ignore_role:
  "signalPayloads now (i\<lparr>ai_role := r\<rparr>) w recent = signalPayloads now i w recent"
  unfolding signalPayloads_def rules_ignore_role by (rule refl)

text \<open>
  Claim C10 (role gate on an absent role). For an interaction whose role is absent,
  \<open>null\<close> or the empty string, \<open>extractSignalsFromInteraction\<close> runs the write loop on
  the payloads of the six rules, and its result is the one for the same interaction with
  role \<open>STUDENT\<close>. The gate holds exactly when a role is present, not empty and different
  from \<open>STUDENT\<close>.
\<close>

theorem absent_role_not_gated:
  "(ai_role i = None \<or> ai_role i = Some [] \<longrightarrow>
      extractSignalsFromInteraction now i options d
        = writeSignals now
            (signalPayloads now i (windowOrDefault options)
               (recentInteractions now (windowOrDefault options) (ai_userId i) d))
            emptyResult d
      \<and> extractSignalsFromInteraction now i options d
          = extractSignalsFromInteraction now (i\<lparr>ai_role := Some ''STUDENT''\<rparr>) options d)
   \<and> (roleGate i \<longleftrightarrow> (\<exists>r. ai_role i = Some r \<and> r \<noteq> [] \<and> r \<noteq> ''STUDENT''))"
  by (cases "ai_role i")
     (auto simp: extractSignalsFromInteraction_def roleGate_def Let_def
        signalPayloads_ignore_role)

theorem absent_role_not_gated_witness:
  "ai_role absentRoleInteraction = None
   \<and> \<not> roleGate absentRoleInteraction
   \<and> extractSignalsFromInteraction 2000 absentRoleInteraction None (demoDb absentRoleInteraction)
      = extractSignalsFromInteraction 2000
          (absentRoleInteraction\<lparr>ai_role := Some ''STUDENT''\<rparr>) None
          (demoDb absentRoleInteraction)
   \<and> fst (extractSignalsFromInteraction 2000
          (absentRoleInteraction\<lparr>ai_role := Some ''STUDENT''\<rparr>) None
          (demoDb absentRoleInteraction))
      = Inr \<lparr> created = 1, skipped = 0, signals = [demoSignal] \<rparr>"
proof -
  have h: "ai_role absentRoleInteraction = None" by (simp add: absentRoleInteraction_def)
  note t = absent_role_not_gated [of absentRoleInteraction 2000 None "demoDb absentRoleInteraction"]
  from t h
  have eq: "extractSignalsFromInteraction 2000 absentRoleInteraction None
        (demoDb absentRoleInteraction)
      = extractSignalsFromInteraction 2000
          (absentRoleInteraction\<lparr>ai_role := Some ''STUDENT''\<rparr>) None
          (demoDb absentRoleInteraction)"
    by blast
  from t h have ng: "\<not> roleGate absentRoleInteraction" by simp
  from eq demo_extract_absent_role
  have "fst (extractSignalsFromInteraction 2000
          (absentRoleInteraction\<lparr>ai_role := Some ''STUDENT''\<rparr>) None
          (demoDb absentRoleInteraction))
      = Inr \<lparr> created = 1, skipped = 0, signals = [demoSignal] \<rparr>"
    by (metis fst_conv)
  with h eq ng show ?thesis by blast
qed

lemma demo_planned:
  "plannedPayloads 2000 demoInteraction None (demoDb demoInteraction)
     = [signal demoInteraction (trackOf demoInteraction) (topicOf demoInteraction)
          FAILED_ATTEMPT 1 (windowOrDefault None) (RawStatus ''FAILED'')]"
  using demo_facts(1) signalPayloads_single_failed [OF demo_facts(2) demo_text'(2)]
  by (simp add: plannedPayloads_def demo_facts(3))

theorem extraction_idempotent_witness:
  "\<exists>r1 d1 r2 d2.
     extractSignalsFromInteraction 2000 demoInteraction None (demoDb demoInteraction)
       = (Inr r1, d1)
   \<and> extractSignalsFromInteraction 2000 demoInteraction None d1 = (Inr r2, d2)
   \<and> created r1 = 1 \<and> skipped r1 = 0
   \<and> r2 = \<lparr> created = 0, skipped = 1, signals = [] \<rparr> \<and> d2 = d1
   \<and> signalCount (ai_id demoInteraction) FAILED_ATTEMPT d2 \<le> 1"
proof -
  let ?d = "demoDb demoInteraction"
  from extraction_idempotent [of 2000 demoInteraction None ?d 2000]
  obtain r1 d1 r2 d2 where
    run: "extractSignalsFromInteraction 2000 demoInteraction None ?d = (Inr r1, d1)"
      "extractSignalsFromInteraction 2000 demoInteraction None d1 = (Inr r2, d2)"
    and cnt: "signalCount (ai_id demoInteraction) FAILED_ATTEMPT d2
                \<le> max 1 (signalCount (ai_id demoInteraction) FAILED_ATTEMPT ?d)"
    and c1: "created r1
               = length (filter (\<lambda>p. \<not> stored ?d p) (plannedPayloads 2000 demoInteraction None ?d))"
    and s1: "skipped r1
               = length (filter (stored ?d) (plannedPayloads 2000 demoInteraction None ?d))"
    and again: "r2 = \<lparr> created = 0,
                       skipped = length (plannedPayloads 2000 demoInteraction None ?d),
                       signals = [] \<rparr>" "d2 = d1"
    by blast
  have ns: "\<not> stored ?d p" for p by (simp add: stored_def demoDb_def)
  have c: "created r1 = 1" and s: "skipped r1 = 0"
    using c1 s1 by (simp_all add: demo_planned ns)
  have r: "r2 = \<lparr> created = 0, skipped = 1, signals = [] \<rparr>"
    using again(1) by (simp add: demo_planned)
  have "signalCount (ai_id demoInteraction) FAILED_ATTEMPT ?d = 0"
    by (simp add: signalCount_def demoDb_def)
  with cnt have k: "signalCount (ai_id demoInteraction) FAILED_ATTEMPT d2 \<le> 1" by simp
  from run c s r again(2) k show ?thesis by blast
qed

section \<open>Properties of the alert dispatcher\<close>

lemma recentAlert_None: "recentAlert now t s d = None \<longleftrightarrow> \<not> inCooldown now t s (TutorAlerts d)"
  by (auto simp: recentAlert_def inCooldown_def find_None_iff list_ex_iff)

lemma inCooldown_append:
  "inCooldown now t s (xs @ ys) \<longleftrightarrow> inCooldown now t s xs \<or> inCooldown now t s ys"
  by (auto simp: inCooldown_def list_ex_iff)

lemma cooldown_nonneg: "0 \<le> hoursMs COOLDOWN_HOURS"
  by (simp add: hoursMs_def COOLDOWN_HOURS_def)


lemma TutorAlert_create_cases:
  "TutorAlert_create now t s p d = (r, d') \<Longrightarrow>
     (r = Inl ValidationError \<and> d' = d \<and> (struggleScore p < 1 \<or> struggleScore p > 10))
     \<or> (\<exists>a. r = Inr a \<and> 1 \<le> struggleScore p \<and> struggleScore p \<le> 10
           \<and> d' = d\<lparr>TutorAlerts := TutorAlerts d @ [a], nextId := Suc (nextId d)\<rparr>
           \<and> alert_tutorId a = t \<and> alert_studentId a = s \<and> alert_createdAt a = now
           \<and> alert_urgency a = (if struggleScore p \<ge> 9 then URGENT else SOFT)
           \<and> alert_struggleScore a = struggleScore p \<and> \<not> isRead a \<and> alert_id a = nextId d)"
  by (auto simp: TutorAlert_create_def Let_def split: if_splits)

lemma alertTutors_spec:
  "alertTutors now s p ts acc d = (r, d') \<Longrightarrow>
     \<exists>new. d' = d\<lparr>TutorAlerts := TutorAlerts d @ new, nextId := nextId d + length new\<rparr>
       \<and> loopAlerts now s p ts (TutorAlerts d) new
       \<and> (case r of
             Inr alerts \<Rightarrow> alerts = acc @ new
               \<and> (1 \<le> struggleScore p \<and> struggleScore p \<le> 10 \<or> new = [])
               \<and> (\<forall>t \<in> set ts. inCooldown now t s (TutorAlerts d'))
           | Inl e \<Rightarrow> e = ValidationError \<and> new = []
               \<and> (struggleScore p < 1 \<or> struggleScore p > 10))"
proof (induction ts arbitrary: acc d r d')
  case Nil
  then show ?case
    by (intro exI [of _ "[]"]) (auto simp: loopAlerts_def)
next
  case (Cons t ts)
  show ?case
  proof (cases "inCooldown now t s (TutorAlerts d)")
    case True
    then obtain x where "recentAlert now t s d = Some x"
      using recentAlert_None [of now t s d] by (cases "recentAlert now t s d") auto
    with Cons.prems have "alertTutors now s p ts acc d = (r, d')" by simp
    from Cons.IH [OF this] obtain new where
      n: "d' = d\<lparr>TutorAlerts := TutorAlerts d @ new, nextId := nextId d + length new\<rparr>"
        "loopAlerts now s p ts (TutorAlerts d) new"
        "case r of
             Inr alerts \<Rightarrow> alerts = acc @ new
               \<and> (1 \<le> struggleScore p \<and> struggleScore p \<le> 10 \<or> new = [])
               \<and> (\<forall>t \<in> set ts. inCooldown now t s (TutorAlerts d'))
           | Inl e \<Rightarrow> e = ValidationError \<and> new = []
               \<and> (struggleScore p < 1 \<or> struggleScore p > 10)"
      by blast
    have l: "loopAlerts now s p (t # ts) (TutorAlerts d) new"
      using n(2) by (auto simp: loopAlerts_def list_all_iff)
    have c: "inCooldown now t s (TutorAlerts d')"
      using True n(1) by (simp add: inCooldown_append)
    show ?thesis
      using n(1) l n(3) c by (intro exI [of _ new]) (auto split: sum.splits)
  next
    case False
    then have none: "recentAlert now t s d = None" by (simp add: recentAlert_None)
    obtain r0 d0 where cr: "TutorAlert_create now t s p d = (r0, d0)" by fastforce
    from TutorAlert_create_cases [OF cr]
    consider (invalid) "r0 = Inl ValidationError" "d0 = d"
        "struggleScore p < 1 \<or> struggleScore p > 10"
      | (valid) a where "r0 = Inr a" "1 \<le> struggleScore p" "struggleScore p \<le> 10"
        "d0 = d\<lparr>TutorAlerts := TutorAlerts d @ [a], nextId := Suc (nextId d)\<rparr>"
        "alert_tutorId a = t" "alert_studentId a = s" "alert_createdAt a = now"
        "alert_urgency a = (if struggleScore p \<ge> 9 then URGENT else SOFT)"
        "alert_struggleScore a = struggleScore p" "\<not> isRead a"
      by blast
    then show ?thesis
    proof cases
      case invalid
      with Cons.prems none cr have "r = Inl ValidationError" "d' = d" by auto
      with invalid(3) show ?thesis
        by (intro exI [of _ "[]"]) (auto simp: loopAlerts_def)
    next
      case a: valid
      with Cons.prems none cr have "alertTutors now s p ts (acc @ [a]) d0 = (r, d')" by simp
      from Cons.IH [OF this] obtain new where
        n: "d' = d0\<lparr>TutorAlerts := TutorAlerts d0 @ new, nextId := nextId d0 + length new\<rparr>"
          "loopAlerts now s p ts (TutorAlerts d0) new"
          "case r of
             Inr alerts \<Rightarrow> alerts = (acc @ [a]) @ new
               \<and> (1 \<le> struggleScore p \<and> struggleScore p \<le> 10 \<or> new = [])
               \<and> (\<forall>t \<in> set ts. inCooldown now t s (TutorAlerts d'))
           | Inl e \<Rightarrow> e = ValidationError \<and> new = []
               \<and> (struggleScore p < 1 \<or> struggleScore p > 10)"
        by blast
      have acool: "inCooldown now t s (TutorAlerts d0)"
        using a cooldown_nonneg by (auto simp: inCooldown_def list_ex_iff)
      have d': "d' = d\<lparr>TutorAlerts := TutorAlerts d @ (a # new),
                       nextId := nextId d + length (a # new)\<rparr>"
        using n(1) a(4) by simp
      have fresh: "\<forall>b \<in> set new. alert_tutorId b \<noteq> t"
        using n(2) acool by (auto simp: loopAlerts_def list_all_iff)
      have old: "\<forall>b \<in> set new. \<not> inCooldown now (alert_tutorId b) s (TutorAlerts d)"
        using n(2) a(4) by (auto simp: loopAlerts_def list_all_iff inCooldown_append)
      have dist: "distinct (map alert_tutorId (a # new))"
        using n(2) fresh a(5) by (auto simp: loopAlerts_def)
      have each: "alert_studentId b = s \<and> alert_createdAt b = now
          \<and> alert_tutorId b \<in> set (t # ts)
          \<and> \<not> inCooldown now (alert_tutorId b) s (TutorAlerts d)
          \<and> alert_urgency b = (if struggleScore p \<ge> 9 then URGENT else SOFT)
          \<and> alert_struggleScore b = struggleScore p \<and> \<not> isRead b"
        if "b \<in> set (a # new)" for b
      proof -
        from that consider "b = a" | "b \<in> set new" by auto
        then show ?thesis
        proof cases
          case 1
          with a(5-10) False show ?thesis by simp
        next
          case 2
          with n(2) have "alert_studentId b = s \<and> alert_createdAt b = now
            \<and> alert_tutorId b \<in> set ts
            \<and> alert_urgency b = (if struggleScore p \<ge> 9 then URGENT else SOFT)
            \<and> alert_struggleScore b = struggleScore p \<and> \<not> isRead b"
            unfolding loopAlerts_def list_all_iff by blast
          with old 2 show ?thesis by simp
        qed
      qed
      have l: "loopAlerts now s p (t # ts) (TutorAlerts d) (a # new)"
        unfolding loopAlerts_def list_all_iff using dist each by blast
      have c: "inCooldown now t s (TutorAlerts d')"
        using acool n(1) by (simp add: inCooldown_append)
      have r: "case r of
             Inr alerts \<Rightarrow> alerts = acc @ (a # new)
               \<and> (1 \<le> struggleScore p \<and> struggleScore p \<le> 10 \<or> a # new = [])
               \<and> (\<forall>t \<in> set (t # ts). inCooldown now t s (TutorAlerts d'))
           | Inl e \<Rightarrow> e = ValidationError \<and> a # new = []
               \<and> (struggleScore p < 1 \<or> struggleScore p > 10)"
        using n(3) c a(2,3) by (auto split: sum.splits)
      show ?thesis
        using d' l r by (intro exI [of _ "a # new"]) simp
    qed
  qed
qed








text \<open>
  A run that takes its steps with no other run in between is the call: given steps enough,
  \<open>runAlone\<close> from \<open>startRun\<close> returns what \<open>createAlertsIfNeeded\<close> returns and leaves
  the store that it leaves.
\<close>

lemma runAlone_Returned: "runAlone n (Returned r) d = (Returned r, d)"
  by (induction n) simp_all

lemma runAlone_alertTutors:
  "2 * length ts + 1 \<le> n \<Longrightarrow>
     runAlone n (Querying now s p ts acc) d
       = (case alertTutors now s p ts acc d of (r, d') \<Rightarrow> (Returned r, d'))"
proof (induction ts arbitrary: n acc d)
  case Nil
  then obtain m where "n = Suc m" by (cases n) auto
  then show ?case by (simp add: runAlone_Returned)
next
  case (Cons t ts)
  then obtain m where n: "n = Suc (Suc m)" "2 * length ts + 1 \<le> m"
    by (cases n; cases "n - 1") auto
  show ?case
  proof (cases "recentAlert now t s d")
    case (Some x)
    have "2 * length ts + 1 \<le> Suc m" using n(2) by simp
    from Cons.IH [OF this] Some show ?thesis by (simp add: n(1))
  next
    case None
    obtain r0 d0 where cr: "TutorAlert_create now t s p d = (r0, d0)" by fastforce
    show ?thesis
    proof (cases r0)
      case (Inl e)
      with None cr show ?thesis by (simp add: n(1) runAlone_Returned)
    next
      case (Inr a)
      with None cr Cons.IH [OF n(2)] show ?thesis by (simp add: n(1))
    qed
  qed
qed

lemma runAlone_createAlertsIfNeeded:
  "\<exists>n. runAlone n (startRun now s d) d
         = (case createAlertsIfNeeded now s d of (r, d') \<Rightarrow> (Returned r, d'))"
proof (cases "startRun now s d")
  case (Querying now' s' p ts acc)
  then have q: "startRun now s d = Querying now s p ts []"
    and c: "createAlertsIfNeeded now s d = alertTutors now s p ts [] d"
    by (auto simp: startRun_def createAlertsIfNeeded_def split: option.splits if_splits)
  show ?thesis
    unfolding q c by (rule exI [of _ "2 * length ts + 1"]) (rule runAlone_alertTutors, simp)
next
  case (Creating now' s' p ts acc)
  then show ?thesis by (auto simp: startRun_def split: option.splits if_splits)
next
  case (Returned r)
  then have "r = Inr []" and "createAlertsIfNeeded now s d = (Inr [], d)"
    by (auto simp: startRun_def createAlertsIfNeeded_def split: option.splits if_splits)
  with Returned show ?thesis by (simp add: runAlone_Returned)
qed



lemma gate_equiv: "notEligible p \<longleftrightarrow> \<not> eligible p"
  by (auto simp: notEligible_def eligible_def)

lemma alertTutors_all:
  assumes "1 \<le> struggleScore p" and "struggleScore p \<le> 10" and "ts \<noteq> []"
    and "\<forall>t \<in> set ts. \<not> inCooldown now t s (TutorAlerts d)"
  shows "\<exists>alerts d'. alertTutors now s p ts [] d = (Inr alerts, d')
    \<and> alerts \<noteq> [] \<and> alert_tutorId ` set alerts = set ts
    \<and> loopAlerts now s p ts (TutorAlerts d) alerts
    \<and> TutorAlerts d' = TutorAlerts d @ alerts"
proof -
  obtain r d' where run: "alertTutors now s p ts [] d = (r, d')" by fastforce
  from alertTutors_spec [OF run] obtain new where
    new: "d' = d\<lparr>TutorAlerts := TutorAlerts d @ new, nextId := nextId d + length new\<rparr>"
    "loopAlerts now s p ts (TutorAlerts d) new"
    and res: "case r of
             Inr alerts \<Rightarrow> alerts = [] @ new
               \<and> (1 \<le> struggleScore p \<and> struggleScore p \<le> 10 \<or> new = [])
               \<and> (\<forall>t \<in> set ts. inCooldown now t s (TutorAlerts d'))
           | Inl e \<Rightarrow> e = ValidationError \<and> new = []
               \<and> (struggleScore p < 1 \<or> struggleScore p > 10)"
    by blast
  from res assms(1,2) obtain alerts where r: "r = Inr alerts" by (cases r) auto
  with res have al: "alerts = new" and cool: "\<forall>t \<in> set ts. inCooldown now t s (TutorAlerts d')"
    by simp_all
  have sub: "alert_tutorId ` set new \<subseteq> set ts"
    using new(2) by (auto simp: loopAlerts_def list_all_iff)
  have sup: "set ts \<subseteq> alert_tutorId ` set new"
  proof
    fix t
    assume t: "t \<in> set ts"
    with cool new(1) assms(4) have "inCooldown now t s new"
      by (simp add: inCooldown_append)
    then show "t \<in> alert_tutorId ` set new"
      by (auto simp: inCooldown_def list_ex_iff)
  qed
  from sup assms(3) have ne: "new \<noteq> []" by (cases ts) auto
  from run r al new sub sup ne show ?thesis by auto
qed

text \<open>
  Claim C4 (alert eligibility gate). For a student with a stored profile, the early-return
  test of the source is the negation of the gate
  \<open>(supportLevel = HIGH \<and> trend = UP) \<or> score \<ge> 9\<close>. When the gate fails the call returns
  the empty list and changes nothing; when it holds the call goes on to the care network
  and the alert loop. With the gate passed, in particular for a profile with score 9.2,
  trend \<open>STABLE\<close> and support level \<open>MEDIUM\<close>, a care network with tutors, none of them in
  cooldown, and a score that the alert schema accepts, alerts are created, one for each
  tutor of the network, with urgency \<open>URGENT\<close> when the score is at least 9 and \<open>SOFT\<close>
  otherwise.
\<close>

theorem alert_eligibility_gate:
  assumes "StruggleProfiles d s = Some p"
  shows "(notEligible p \<longleftrightarrow> \<not> eligible p)
    \<and> (\<not> eligible p \<longrightarrow> createAlertsIfNeeded now s d = (Inr [], d))
    \<and> (eligible p \<longrightarrow>
         createAlertsIfNeeded now s d
           = (case TutorCareNetworks d s of
                None \<Rightarrow> (Inr [], d)
              | Some network \<Rightarrow>
                  if tutorIds network = [] then (Inr [], d)
                  else alertTutors now s p (tutorIds network) [] d))
    \<and> ((eligible p \<or> struggleScore p = 9.2 \<and> prof_trend p = STABLE
           \<and> prof_supportLevel p = MEDIUM)
        \<and> TutorCareNetworks d s = Some network \<and> tutorIds network \<noteq> []
        \<and> 1 \<le> struggleScore p \<and> struggleScore p \<le> 10
        \<and> (\<forall>t \<in> set (tutorIds network). \<not> inCooldown now t s (TutorAlerts d))
        \<longrightarrow> (\<exists>alerts d'. createAlertsIfNeeded now s d = (Inr alerts, d')
               \<and> alerts \<noteq> []
               \<and> alert_tutorId ` set alerts = set (tutorIds network)
               \<and> TutorAlerts d' = TutorAlerts d @ alerts
               \<and> (\<forall>a \<in> set alerts. alert_studentId a = s
                     \<and> alert_urgency a = (if struggleScore p \<ge> 9 then URGENT else SOFT))))"
proof -
  have g: "notEligible p \<longleftrightarrow> \<not> eligible p" by (rule gate_equiv)
  have stop: "createAlertsIfNeeded now s d = (Inr [], d)" if "\<not> eligible p"
    using that assms g by (simp add: createAlertsIfNeeded_def)
  have go: "createAlertsIfNeeded now s d
           = (case TutorCareNetworks d s of
                None \<Rightarrow> (Inr [], d)
              | Some network \<Rightarrow>
                  if tutorIds network = [] then (Inr [], d)
                  else alertTutors now s p (tutorIds network) [] d)" if "eligible p"
    using that assms g by (simp add: createAlertsIfNeeded_def)
  have all: "\<exists>alerts d'. createAlertsIfNeeded now s d = (Inr alerts, d')
               \<and> alerts \<noteq> []
               \<and> alert_tutorId ` set alerts = set (tutorIds network)
               \<and> TutorAlerts d' = TutorAlerts d @ alerts
               \<and> (\<forall>a \<in> set alerts. alert_studentId a = s
                     \<and> alert_urgency a = (if struggleScore p \<ge> 9 then URGENT else SOFT))"
    if e: "eligible p \<or> struggleScore p = 9.2 \<and> prof_trend p = STABLE
           \<and> prof_supportLevel p = MEDIUM"
      and n: "TutorCareNetworks d s = Some network" "tutorIds network \<noteq> []"
      and v: "1 \<le> struggleScore p" "struggleScore p \<le> 10"
      and c: "\<forall>t \<in> set (tutorIds network). \<not> inCooldown now t s (TutorAlerts d)"
  proof -
    from e have el: "eligible p" by (auto simp: eligible_def)
    from alertTutors_all [OF v n(2) c] obtain alerts d' where
      a: "alertTutors now s p (tutorIds network) [] d = (Inr alerts, d')"
      "alerts \<noteq> []" "alert_tutorId ` set alerts = set (tutorIds network)"
      "loopAlerts now s p (tutorIds network) (TutorAlerts d) alerts"
      "TutorAlerts d' = TutorAlerts d @ alerts"
      by blast
    from a(4) have u: "\<forall>a \<in> set alerts. alert_studentId a = s
                     \<and> alert_urgency a = (if struggleScore p \<ge> 9 then URGENT else SOFT)"
      by (simp add: loopAlerts_def list_all_iff)
    from go [OF el] n a(1) have "createAlertsIfNeeded now s d = (Inr alerts, d')" by simp
    with a(2,3,5) u show ?thesis by blast
  qed
  from g stop go all show ?thesis by blast
qed

theorem alert_eligibility_gate_witness:
  "StruggleProfiles (careDb 9.2) 7 = Some (demoProfile 9.2)
   \<and> eligible (demoProfile 9.2) \<and> \<not> notEligible (demoProfile 9.2)
   \<and> struggleScore (demoProfile 9.2) = 9.2 \<and> prof_trend (demoProfile 9.2) = STABLE
   \<and> prof_supportLevel (demoProfile 9.2) = MEDIUM
   \<and> (\<exists>alerts d'. createAlertsIfNeeded 2000 7 (careDb 9.2) = (Inr alerts, d')
        \<and> alerts \<noteq> [] \<and> alert_tutorId ` set alerts = {10, 11}
        \<and> (\<forall>a \<in> set alerts. alert_urgency a = URGENT))
   \<and> StruggleProfiles (careDb 5) 7 = Some (demoProfile 5)
   \<and> \<not> eligible (demoProfile 5)
   \<and> createAlertsIfNeeded 2000 7 (careDb 5) = (Inr [], careDb 5)"
proof -
  have h: "StruggleProfiles (careDb 9.2) 7 = Some (demoProfile 9.2)"
    and h5: "StruggleProfiles (careDb 5) 7 = Some (demoProfile 5)"
    by (simp_all add: careDb_def)
  have e: "eligible (demoProfile 9.2)" and e5: "\<not> eligible (demoProfile 5)"
    by (simp_all add: eligible_def demoProfile_def)
  have f: "struggleScore (demoProfile 9.2) = 9.2" "prof_trend (demoProfile 9.2) = STABLE"
    "prof_supportLevel (demoProfile 9.2) = MEDIUM"
    by (simp_all add: demoProfile_def)
  have prem: "(eligible (demoProfile 9.2) \<or> struggleScore (demoProfile 9.2) = 9.2
        \<and> prof_trend (demoProfile 9.2) = STABLE \<and> prof_supportLevel (demoProfile 9.2) = MEDIUM)
      \<and> TutorCareNetworks (careDb 9.2) 7 = Some demoNetwork \<and> tutorIds demoNetwork \<noteq> []
      \<and> 1 \<le> struggleScore (demoProfile 9.2) \<and> struggleScore (demoProfile 9.2) \<le> 10
      \<and> (\<forall>t \<in> set (tutorIds demoNetwork). \<not> inCooldown 2000 t 7 (TutorAlerts (careDb 9.2)))"
    using e by (simp add: careDb_def demoProfile_def inCooldown_def demoNetwork_def)
  note t = alert_eligibility_gate [OF h, of 2000 demoNetwork]
  from t e have ne: "\<not> notEligible (demoProfile 9.2)" by blast
  from t [THEN conjunct2, THEN conjunct2, THEN conjunct2, THEN mp, OF prem]
  obtain alerts d' where
    a: "createAlertsIfNeeded 2000 7 (careDb 9.2) = (Inr alerts, d')" "alerts \<noteq> []"
    "alert_tutorId ` set alerts = set (tutorIds demoNetwork)"
    "\<forall>a \<in> set alerts. alert_studentId a = 7
       \<and> alert_urgency a = (if struggleScore (demoProfile 9.2) \<ge> 9 then URGENT else SOFT)"
    by blast
  have s: "set (tutorIds demoNetwork) = {10, 11}" by (auto simp: demoNetwork_def)
  have u: "(if struggleScore (demoProfile 9.2) \<ge> 9 then URGENT else SOFT) = URGENT"
    by (simp add: demoProfile_def)
  from a s u have ex: "\<exists>alerts d'. createAlertsIfNeeded 2000 7 (careDb 9.2) = (Inr alerts, d')
        \<and> alerts \<noteq> [] \<and> alert_tutorId ` set alerts = {10, 11}
        \<and> (\<forall>a \<in> set alerts. alert_urgency a = URGENT)"
    by (intro exI [of _ alerts] exI [of _ d']) simp
  from alert_eligibility_gate [OF h5, of 2000] e5
  have stop: "createAlertsIfNeeded 2000 7 (careDb 5) = (Inr [], careDb 5)" by blast
  from h h5 e e5 ne f ex stop show ?thesis by blast
qed

lemma demo_mark:
  "markAsRead 5000 100 10 alertedDb
     = (Some readAlert, alertedDb\<lparr>TutorAlerts := [readAlert, demoAlert 101 11]\<rparr>)"
  "markAsRead 5000 100 11 alertedDb = (None, alertedDb)"
  by (simp_all add: markAsRead_def alertedDb_def demoAlert_def readAlert_def)

lemma updateFirst_spec:
  "updateFirst now alertId tutorId as = (r, as') \<Longrightarrow>
     (case r of
        None \<Rightarrow> as' = as \<and> (\<forall>a \<in> set as. \<not> (alert_id a = alertId \<and> alert_tutorId a = tutorId))
      | Some a' \<Rightarrow>
          (\<exists>n < length as. alert_id (as ! n) = alertId \<and> alert_tutorId (as ! n) = tutorId
             \<and> (\<forall>m < n. \<not> (alert_id (as ! m) = alertId \<and> alert_tutorId (as ! m) = tutorId))
             \<and> a' = (as ! n)\<lparr>isRead := True, alert_updatedAt := now\<rparr> \<and> as' = as[n := a']))"
proof (induction as arbitrary: r as')
  case Nil
  then show ?case by simp
next
  case (Cons a as)
  show ?case
  proof (cases "alert_id a = alertId \<and> alert_tutorId a = tutorId")
    case True
    with Cons.prems have "r = Some (a\<lparr>isRead := True, alert_updatedAt := now\<rparr>)"
      "as' = a\<lparr>isRead := True, alert_updatedAt := now\<rparr> # as"
      by auto
    with True show ?thesis by (auto intro!: exI [of _ 0])
  next
    case False
    obtain r0 as0 where u: "updateFirst now alertId tutorId as = (r0, as0)" by fastforce
    with False Cons.prems have eq: "r = r0" "as' = a # as0" by auto
    note ih = Cons.IH [OF u]
    show ?thesis
    proof (cases r0)
      case None
      with ih eq False show ?thesis by auto
    next
      case (Some a')
      with ih obtain n where n: "n < length as" "alert_id (as ! n) = alertId"
        "alert_tutorId (as ! n) = tutorId"
        "\<forall>m < n. \<not> (alert_id (as ! m) = alertId \<and> alert_tutorId (as ! m) = tutorId)"
        "a' = (as ! n)\<lparr>isRead := True, alert_updatedAt := now\<rparr>" "as0 = as[n := a']"
        by auto
      have "\<forall>m < Suc n. \<not> (alert_id ((a # as) ! m) = alertId \<and> alert_tutorId ((a # as) ! m) = tutorId)"
        using n(4) False by (auto simp: nth_Cons split: nat.splits)
      with n eq Some show ?thesis
        by (auto intro!: exI [of _ "Suc n"])
    qed
  qed
qed

text \<open>
  Claim C9 (mark-as-read frame condition), as amended. \<open>markAsRead alertId tutorId\<close>
  touches the alert collection only. If it returns a document, that document is the
  first stored alert with this id and this tutor, equal to the stored one except that
  \<open>isRead\<close> is true and \<open>updatedAt\<close> is the time of the call; the collection is the old
  one with exactly that position replaced, so every other alert and every other field of
  that alert (its id, tutor, student, urgency, topic, score, reason summary and
  \<open>createdAt\<close>) is as before. If no alert has this id together with this tutor, it
  returns nothing and the store is unchanged.
\<close>

theorem markAsRead_frame:
  assumes "markAsRead now alertId tutorId d = (r, d')"
  shows "AIInteractions d' = AIInteractions d \<and> StruggleSignals d' = StruggleSignals d
    \<and> StruggleProfiles d' = StruggleProfiles d \<and> TutorCareNetworks d' = TutorCareNetworks d
    \<and> nextId d' = nextId d
    \<and> (case r of
          None \<Rightarrow>
            d' = d
            \<and> (\<forall>a \<in> set (TutorAlerts d). \<not> (alert_id a = alertId \<and> alert_tutorId a = tutorId))
        | Some a' \<Rightarrow>
            (\<exists>n < length (TutorAlerts d).
               alert_id (TutorAlerts d ! n) = alertId
               \<and> alert_tutorId (TutorAlerts d ! n) = tutorId
               \<and> a' = (TutorAlerts d ! n)\<lparr>isRead := True, alert_updatedAt := now\<rparr>
               \<and> isRead a' \<and> alert_updatedAt a' = now
               \<and> alert_id a' = alert_id (TutorAlerts d ! n)
               \<and> alert_tutorId a' = alert_tutorId (TutorAlerts d ! n)
               \<and> alert_studentId a' = alert_studentId (TutorAlerts d ! n)
               \<and> alert_urgency a' = alert_urgency (TutorAlerts d ! n)
               \<and> alert_topic a' = alert_topic (TutorAlerts d ! n)
               \<and> alert_struggleScore a' = alert_struggleScore (TutorAlerts d ! n)
               \<and> alert_reasonSummary a' = alert_reasonSummary (TutorAlerts d ! n)
               \<and> alert_createdAt a' = alert_createdAt (TutorAlerts d ! n)
               \<and> TutorAlerts d' = (TutorAlerts d)[n := a']))
    \<and> ((\<forall>a \<in> set (TutorAlerts d). \<not> (alert_id a = alertId \<and> alert_tutorId a = tutorId))
         \<longrightarrow> r = None \<and> d' = d)"
proof -
  obtain r0 as0 where u: "updateFirst now alertId tutorId (TutorAlerts d) = (r0, as0)"
    by fastforce
  with assms have eq: "r = r0" "d' = d\<lparr>TutorAlerts := as0\<rparr>"
    by (auto simp: markAsRead_def)
  note sp = updateFirst_spec [OF u]
  show ?thesis
  proof (cases r0)
    case None
    with sp eq show ?thesis by auto
  next
    case (Some a')
    with sp obtain n where n: "n < length (TutorAlerts d)"
      "alert_id (TutorAlerts d ! n) = alertId" "alert_tutorId (TutorAlerts d ! n) = tutorId"
      "a' = (TutorAlerts d ! n)\<lparr>isRead := True, alert_updatedAt := now\<rparr>"
      "as0 = (TutorAlerts d)[n := a']"
      by auto
    have hit: "\<exists>n < length (TutorAlerts d).
               alert_id (TutorAlerts d ! n) = alertId
               \<and> alert_tutorId (TutorAlerts d ! n) = tutorId
               \<and> a' = (TutorAlerts d ! n)\<lparr>isRead := True, alert_updatedAt := now\<rparr>
               \<and> isRead a' \<and> alert_updatedAt a' = now
               \<and> alert_id a' = alert_id (TutorAlerts d ! n)
               \<and> alert_tutorId a' = alert_tutorId (TutorAlerts d ! n)
               \<and> alert_studentId a' = alert_studentId (TutorAlerts d ! n)
               \<and> alert_urgency a' = alert_urgency (TutorAlerts d ! n)
               \<and> alert_topic a' = alert_topic (TutorAlerts d ! n)
               \<and> alert_struggleScore a' = alert_struggleScore (TutorAlerts d ! n)
               \<and> alert_reasonSummary a' = alert_reasonSummary (TutorAlerts d ! n)
               \<and> alert_createdAt a' = alert_createdAt (TutorAlerts d ! n)
               \<and> TutorAlerts (d\<lparr>TutorAlerts := as0\<rparr>) = (TutorAlerts d)[n := a']"
      using n by (intro exI [of _ n]) simp
    have some: "\<exists>a \<in> set (TutorAlerts d). alert_id a = alertId \<and> alert_tutorId a = tutorId"
      using n(1-3) nth_mem by blast
    from hit some eq Some show ?thesis by simp
  qed
qed

theorem markAsRead_frame_witness:
  "markAsRead 5000 100 10 alertedDb
     = (Some readAlert, alertedDb\<lparr>TutorAlerts := [readAlert, demoAlert 101 11]\<rparr>)
   \<and> markAsRead 5000 100 11 alertedDb = (None, alertedDb)
   \<and> (\<exists>n < length (TutorAlerts alertedDb).
         alert_id (TutorAlerts alertedDb ! n) = 100
         \<and> alert_tutorId (TutorAlerts alertedDb ! n) = 10
         \<and> readAlert = (TutorAlerts alertedDb ! n)\<lparr>isRead := True, alert_updatedAt := 5000\<rparr>
         \<and> alert_createdAt readAlert = alert_createdAt (TutorAlerts alertedDb ! n)
         \<and> [readAlert, demoAlert 101 11] = (TutorAlerts alertedDb)[n := readAlert])
   \<and> \<not> list_ex (\<lambda>a. alert_id a = 100 \<and> alert_tutorId a = 11) (TutorAlerts alertedDb)"
proof -
  from markAsRead_frame [OF demo_mark(1)]
  have hit: "\<exists>n < length (TutorAlerts alertedDb).
         alert_id (TutorAlerts alertedDb ! n) = 100
         \<and> alert_tutorId (TutorAlerts alertedDb ! n) = 10
         \<and> readAlert = (TutorAlerts alertedDb ! n)\<lparr>isRead := True, alert_updatedAt := 5000\<rparr>
         \<and> alert_createdAt readAlert = alert_createdAt (TutorAlerts alertedDb ! n)
         \<and> [readAlert, demoAlert 101 11] = (TutorAlerts alertedDb)[n := readAlert]"
    by simp blast
  from markAsRead_frame [OF demo_mark(2)]
  have miss: "\<not> list_ex (\<lambda>a. alert_id a = 100 \<and> alert_tutorId a = 11) (TutorAlerts alertedDb)"
    by (simp add: list_ex_iff)
  from demo_mark hit miss show ?thesis by blast
qed

text \<open>
  The claim as stated leaves every field of the alert but the read flag unchanged. The
  alert that was created, and last written, at instant 2000 and is marked as read at
  instant 5000 comes back with \<open>updatedAt = 5000\<close>: it is not the stored alert with
  only its read flag set.
\<close>

theorem markAsRead_updatedAt_counterexample:
  "markAsRead 5000 100 10 alertedDb
     = (Some readAlert, alertedDb\<lparr>TutorAlerts := [readAlert, demoAlert 101 11]\<rparr>)
   \<and> TutorAlerts alertedDb = [demoAlert 100 10, demoAlert 101 11]
   \<and> alert_updatedAt (demoAlert 100 10) = 2000
   \<and> alert_updatedAt readAlert = 5000
   \<and> readAlert \<noteq> (demoAlert 100 10)\<lparr>isRead := True\<rparr>"
proof -
  have "alert_updatedAt readAlert \<noteq> alert_updatedAt ((demoAlert 100 10)\<lparr>isRead := True\<rparr>)"
    by (simp add: readAlert_def demoAlert_def)
  then have "readAlert \<noteq> (demoAlert 100 10)\<lparr>isRead := True\<rparr>" by metis
  then show ?thesis
    using demo_mark(1) by (simp add: alertedDb_def readAlert_def demoAlert_def)
qed

end
